theory Spec2Isabelle
  imports Complex_Main
begin

section \<open>The outfit subsystem (src/outfit.c)\<close>

text \<open>
  A shallow embedding of \<^verbatim>\<open>src/outfit.c\<close>. The C \<^verbatim>\<open>double\<close> is read as a real
  number: every statement below about a computed value is an equation between the
  expression the source evaluates and the same expression over the stored fields.
  A behaviour that C leaves undefined (a NULL pointer handed to \<^verbatim>\<open>strcmp\<close>, an index
  outside an array, a union member read while another member is the one stored) is a
  value of type \<open>fault\<close>.
\<close>

datatype fault = NullDeref | OutOfBounds | UnionMismatch

subsection \<open>Type codes\<close>

text \<open>
  Modelled from the spec: \<^verbatim>\<open>outfit.h\<close> is not part of the sources, so the two
  enumerations and the record layouts are taken from the specification's data model, in
  the order in which \<^verbatim>\<open>outfit_getType\<close> lists the display names (the array is indexed
  by the type code, so that order is the order of the enumerators). An enumeration is an
  integer in C, and a code outside the enumerators can be stored in it.
\<close>

type_synonym DamageType = int
type_synonym OutfitType = int

abbreviation DAMAGE_TYPE_NULL :: DamageType where "DAMAGE_TYPE_NULL \<equiv> 0"
abbreviation DAMAGE_TYPE_ENERGY :: DamageType where "DAMAGE_TYPE_ENERGY \<equiv> 1"
abbreviation DAMAGE_TYPE_KINETIC :: DamageType where "DAMAGE_TYPE_KINETIC \<equiv> 2"
abbreviation DAMAGE_TYPE_ION :: DamageType where "DAMAGE_TYPE_ION \<equiv> 3"
abbreviation DAMAGE_TYPE_RADIATION :: DamageType where "DAMAGE_TYPE_RADIATION \<equiv> 4"

abbreviation OUTFIT_TYPE_NULL :: OutfitType where "OUTFIT_TYPE_NULL \<equiv> 0"
abbreviation OUTFIT_TYPE_BOLT :: OutfitType where "OUTFIT_TYPE_BOLT \<equiv> 1"
abbreviation OUTFIT_TYPE_BEAM :: OutfitType where "OUTFIT_TYPE_BEAM \<equiv> 2"
abbreviation OUTFIT_TYPE_TURRET_BOLT :: OutfitType where "OUTFIT_TYPE_TURRET_BOLT \<equiv> 3"
abbreviation OUTFIT_TYPE_TURRET_BEAM :: OutfitType where "OUTFIT_TYPE_TURRET_BEAM \<equiv> 4"
abbreviation OUTFIT_TYPE_MISSILE_DUMB :: OutfitType where "OUTFIT_TYPE_MISSILE_DUMB \<equiv> 5"
abbreviation OUTFIT_TYPE_MISSILE_DUMB_AMMO :: OutfitType
  where "OUTFIT_TYPE_MISSILE_DUMB_AMMO \<equiv> 6"
abbreviation OUTFIT_TYPE_MISSILE_SEEK :: OutfitType where "OUTFIT_TYPE_MISSILE_SEEK \<equiv> 7"
abbreviation OUTFIT_TYPE_MISSILE_SEEK_AMMO :: OutfitType
  where "OUTFIT_TYPE_MISSILE_SEEK_AMMO \<equiv> 8"
abbreviation OUTFIT_TYPE_MISSILE_SEEK_SMART :: OutfitType
  where "OUTFIT_TYPE_MISSILE_SEEK_SMART \<equiv> 9"
abbreviation OUTFIT_TYPE_MISSILE_SEEK_SMART_AMMO :: OutfitType
  where "OUTFIT_TYPE_MISSILE_SEEK_SMART_AMMO \<equiv> 10"
abbreviation OUTFIT_TYPE_MISSILE_SWARM :: OutfitType where "OUTFIT_TYPE_MISSILE_SWARM \<equiv> 11"
abbreviation OUTFIT_TYPE_MISSILE_SWARM_AMMO :: OutfitType
  where "OUTFIT_TYPE_MISSILE_SWARM_AMMO \<equiv> 12"
abbreviation OUTFIT_TYPE_MISSILE_SWARM_SMART :: OutfitType
  where "OUTFIT_TYPE_MISSILE_SWARM_SMART \<equiv> 13"
abbreviation OUTFIT_TYPE_MISSILE_SWARM_SMART_AMMO :: OutfitType
  where "OUTFIT_TYPE_MISSILE_SWARM_SMART_AMMO \<equiv> 14"
abbreviation OUTFIT_TYPE_MODIFCATION :: OutfitType where "OUTFIT_TYPE_MODIFCATION \<equiv> 15"
abbreviation OUTFIT_TYPE_AFTERBURNER :: OutfitType where "OUTFIT_TYPE_AFTERBURNER \<equiv> 16"
abbreviation OUTFIT_TYPE_JAMMER :: OutfitType where "OUTFIT_TYPE_JAMMER \<equiv> 17"
abbreviation OUTFIT_TYPE_MAP :: OutfitType where "OUTFIT_TYPE_MAP \<equiv> 18"
abbreviation OUTFIT_TYPE_SENTINEL :: OutfitType where "OUTFIT_TYPE_SENTINEL \<equiv> 19"

subsection \<open>The outfit record\<close>

text \<open>
  Modelled from the spec: the structure \<^verbatim>\<open>Outfit\<close> and the members of its union
  \<^verbatim>\<open>u\<close> are declared in \<^verbatim>\<open>outfit.h\<close>, which is not part of the sources. The
  fields are the ones \<^verbatim>\<open>outfit.c\<close> reads and writes; a field the parsers fill with
  \<^verbatim>\<open>xml_getFloat\<close> is a real, one they fill with \<^verbatim>\<open>xml_getInt\<close> an integer. A pointer
  is an option (\<open>None\<close> is NULL); a texture is an opaque handle.
\<close>

type_synonym glTexture = nat

record OutfitBoltData =
  blt_delay :: real
  blt_speed :: real
  blt_range :: real
  blt_accuracy :: real
  blt_energy :: real
  blt_dtype :: DamageType
  blt_damage :: real
  blt_gfx_space :: "glTexture option"
  blt_sound :: int
  blt_spfx :: int

record OutfitBeamData =
  bem_delay :: real
  bem_range :: real
  bem_turn :: real
  bem_energy :: real
  bem_dtype :: DamageType
  bem_damage :: real
  bem_colour :: "string option"

record OutfitLauncherData =
  lau_delay :: int
  lau_ammo :: "string option"

record OutfitAmmoData =
  amm_duration :: real
  amm_lockon :: real
  amm_resist :: real
  amm_thrust :: real
  amm_turn :: real
  amm_speed :: real
  amm_energy :: real
  amm_dtype :: DamageType
  amm_damage :: real
  amm_gfx_space :: "glTexture option"
  amm_sound :: int
  amm_spfx :: int

record OutfitModificationData =
  mod_thrust :: real
  mod_turn :: real
  mod_speed :: real
  mod_armour :: real
  mod_shield :: real
  mod_energy :: real
  mod_fuel :: real
  mod_armour_regen :: real
  mod_shield_regen :: real
  mod_energy_regen :: real
  mod_cargo :: int

record OutfitAfterburnerData =
  afb_rumble :: real
  afb_sound :: int
  afb_thrust_perc :: real
  afb_thrust_abs :: real
  afb_speed_perc :: real
  afb_speed_abs :: real
  afb_energy :: real

record OutfitMapData =
  map_radius :: int

record OutfitJammerData =
  jam_range :: real
  jam_chance :: real
  jam_energy :: real

text \<open>
  The union \<^verbatim>\<open>u\<close>: the member that was written last is the one stored. \<open>U_zero\<close> is
  the union as \<^verbatim>\<open>CALLOC_ONE\<close> leaves it, every byte zero, which each member reads as
  its zero value.
\<close>

datatype OutfitUnion =
    U_zero
  | U_blt OutfitBoltData
  | U_bem OutfitBeamData
  | U_lau OutfitLauncherData
  | U_amm OutfitAmmoData
  | U_mod OutfitModificationData
  | U_afb OutfitAfterburnerData
  | U_map OutfitMapData
  | U_jam OutfitJammerData

record Outfit =
  name :: "string option"
  type :: OutfitType
  max_q :: int
  tech :: int
  mass :: int
  price :: int
  description :: "string option"
  gfx_store :: "glTexture option"
  properties :: nat
  u :: OutfitUnion

subsection \<open>Lookup by name\<close>

text \<open>
  What a function writes with \<^verbatim>\<open>WARN\<close> or \<^verbatim>\<open>ERR\<close> is a list of reports, returned
  beside the result, for the functions whose contract speaks of it (\<^verbatim>\<open>outfit_get\<close>,
  \<^verbatim>\<open>outfit_calcDamage\<close>, \<^verbatim>\<open>outfit_load\<close>). \<^verbatim>\<open>log.h\<close> is not part of the sources;
  both macros are taken to print and return, as the \<^verbatim>\<open>return -1\<close> that follows
  each \<^verbatim>\<open>ERR\<close> of \<^verbatim>\<open>outfit_load\<close> requires. The warnings of the parsers change no
  value and are left out.
\<close>

datatype report =
    WARN_not_found string
  | WARN_unknown_damage_type DamageType
  | ERR_missing_root
  | ERR_no_elements

text \<open>
  \<^verbatim>\<open>outfit_get\<close>: the scan over \<^verbatim>\<open>outfit_stack[0 .. outfit_nstack)\<close>. The result is
  the index of the entry whose address is returned, \<open>None\<close> for the NULL return.
  \<^verbatim>\<open>strcmp\<close> reads both of its arguments, so an entry without a name that the scan
  reaches is a NULL dereference.
\<close>

fun outfit_get_from :: "Outfit list \<Rightarrow> nat \<Rightarrow> string \<Rightarrow> fault + (nat option \<times> report list)"
  where
  "outfit_get_from [] i nm = Inr (None, [WARN_not_found nm])"
| "outfit_get_from (x # xs) i nm =
     (case name x of
        None \<Rightarrow> Inl NullDeref
      | Some s \<Rightarrow> if nm = s then Inr (Some i, []) else outfit_get_from xs (Suc i) nm)"

definition outfit_get :: "Outfit list \<Rightarrow> string \<Rightarrow> fault + (nat option \<times> report list)" where
  "outfit_get outfit_stack nm = outfit_get_from outfit_stack 0 nm"

subsection \<open>The damage model\<close>

text \<open>\<^verbatim>\<open>outfit_calcDamage\<close>: the three output parameters are the components of the result.\<close>

definition outfit_calcDamage :: "DamageType \<Rightarrow> real \<Rightarrow> (real \<times> real \<times> real) \<times> report list" where
  "outfit_calcDamage dtype dmg =
     (if dtype = DAMAGE_TYPE_ENERGY then ((dmg * 1.1, dmg * 0.7, 0.1), [])
      else if dtype = DAMAGE_TYPE_KINETIC then ((dmg * 0.8, dmg * 1.2, 1), [])
      else if dtype = DAMAGE_TYPE_ION then ((dmg, dmg, 0.4), [])
      else if dtype = DAMAGE_TYPE_RADIATION then ((0.15, dmg, 0.8), [])
      else ((0, 0, 0), [WARN_unknown_damage_type dtype]))"

subsection \<open>Type predicates\<close>

definition outfit_isWeapon :: "Outfit \<Rightarrow> bool" where
  "outfit_isWeapon o' = (type o' = OUTFIT_TYPE_BOLT \<or> type o' = OUTFIT_TYPE_BEAM)"

definition outfit_isBolt :: "Outfit \<Rightarrow> bool" where
  "outfit_isBolt o' = (type o' = OUTFIT_TYPE_BOLT \<or> type o' = OUTFIT_TYPE_TURRET_BOLT)"

definition outfit_isBeam :: "Outfit \<Rightarrow> bool" where
  "outfit_isBeam o' = (type o' = OUTFIT_TYPE_BEAM \<or> type o' = OUTFIT_TYPE_TURRET_BEAM)"

definition outfit_isLauncher :: "Outfit \<Rightarrow> bool" where
  "outfit_isLauncher o' =
     (type o' = OUTFIT_TYPE_MISSILE_DUMB \<or> type o' = OUTFIT_TYPE_MISSILE_SEEK \<or>
      type o' = OUTFIT_TYPE_MISSILE_SEEK_SMART \<or> type o' = OUTFIT_TYPE_MISSILE_SWARM \<or>
      type o' = OUTFIT_TYPE_MISSILE_SWARM_SMART)"

definition outfit_isAmmo :: "Outfit \<Rightarrow> bool" where
  "outfit_isAmmo o' =
     (type o' = OUTFIT_TYPE_MISSILE_DUMB_AMMO \<or> type o' = OUTFIT_TYPE_MISSILE_SEEK_AMMO \<or>
      type o' = OUTFIT_TYPE_MISSILE_SEEK_SMART_AMMO \<or> type o' = OUTFIT_TYPE_MISSILE_SWARM_AMMO \<or>
      type o' = OUTFIT_TYPE_MISSILE_SWARM_SMART_AMMO)"

definition outfit_isSeeker :: "Outfit \<Rightarrow> bool" where
  "outfit_isSeeker o' =
     (if type o' = OUTFIT_TYPE_MISSILE_SEEK_AMMO \<or> type o' = OUTFIT_TYPE_MISSILE_SEEK_SMART_AMMO \<or>
         type o' = OUTFIT_TYPE_MISSILE_SWARM_AMMO \<or> type o' = OUTFIT_TYPE_MISSILE_SWARM_SMART_AMMO
      then True else False)"

definition outfit_isTurret :: "Outfit \<Rightarrow> bool" where
  "outfit_isTurret o' = (type o' = OUTFIT_TYPE_TURRET_BOLT \<or> type o' = OUTFIT_TYPE_TURRET_BEAM)"

definition outfit_isMod :: "Outfit \<Rightarrow> bool" where
  "outfit_isMod o' = (type o' = OUTFIT_TYPE_MODIFCATION)"

definition outfit_isAfterburner :: "Outfit \<Rightarrow> bool" where
  "outfit_isAfterburner o' = (type o' = OUTFIT_TYPE_AFTERBURNER)"

definition outfit_isJammer :: "Outfit \<Rightarrow> bool" where
  "outfit_isJammer o' = (type o' = OUTFIT_TYPE_JAMMER)"

definition outfit_isMap :: "Outfit \<Rightarrow> bool" where
  "outfit_isMap o' = (type o' = OUTFIT_TYPE_MAP)"

subsection \<open>Reading the union\<close>

text \<open>
  \<^verbatim>\<open>o->u.blt\<close> and its siblings. Reading the member that is stored gives it; reading
  the zeroed union gives the member's zero value; reading a member while another one is
  stored reinterprets that one's bytes, which depends on the layout of both structures:
  for the accessors, which are to read the member that goes with the type, it is the
  fault \<open>UnionMismatch\<close>.
\<close>

definition zero_blt :: OutfitBoltData where
  "zero_blt = \<lparr>blt_delay = 0, blt_speed = 0, blt_range = 0, blt_accuracy = 0, blt_energy = 0,
     blt_dtype = 0, blt_damage = 0, blt_gfx_space = None, blt_sound = 0, blt_spfx = 0\<rparr>"

definition zero_bem :: OutfitBeamData where
  "zero_bem = \<lparr>bem_delay = 0, bem_range = 0, bem_turn = 0, bem_energy = 0, bem_dtype = 0,
     bem_damage = 0, bem_colour = None\<rparr>"

definition zero_lau :: OutfitLauncherData where
  "zero_lau = \<lparr>lau_delay = 0, lau_ammo = None\<rparr>"

definition zero_amm :: OutfitAmmoData where
  "zero_amm = \<lparr>amm_duration = 0, amm_lockon = 0, amm_resist = 0, amm_thrust = 0, amm_turn = 0,
     amm_speed = 0, amm_energy = 0, amm_dtype = 0, amm_damage = 0, amm_gfx_space = None,
     amm_sound = 0, amm_spfx = 0\<rparr>"

definition zero_mod :: OutfitModificationData where
  "zero_mod = \<lparr>mod_thrust = 0, mod_turn = 0, mod_speed = 0, mod_armour = 0, mod_shield = 0,
     mod_energy = 0, mod_fuel = 0, mod_armour_regen = 0, mod_shield_regen = 0,
     mod_energy_regen = 0, mod_cargo = 0\<rparr>"

definition zero_afb :: OutfitAfterburnerData where
  "zero_afb = \<lparr>afb_rumble = 0, afb_sound = 0, afb_thrust_perc = 0, afb_thrust_abs = 0,
     afb_speed_perc = 0, afb_speed_abs = 0, afb_energy = 0\<rparr>"

definition zero_map :: OutfitMapData where
  "zero_map = \<lparr>map_radius = 0\<rparr>"

definition zero_jam :: OutfitJammerData where
  "zero_jam = \<lparr>jam_range = 0, jam_chance = 0, jam_energy = 0\<rparr>"

fun u_blt :: "OutfitUnion \<Rightarrow> fault + OutfitBoltData" where
  "u_blt (U_blt b) = Inr b"
| "u_blt U_zero = Inr zero_blt"
| "u_blt _ = Inl UnionMismatch"

fun u_bem :: "OutfitUnion \<Rightarrow> fault + OutfitBeamData" where
  "u_bem (U_bem b) = Inr b"
| "u_bem U_zero = Inr zero_bem"
| "u_bem _ = Inl UnionMismatch"

fun u_lau :: "OutfitUnion \<Rightarrow> fault + OutfitLauncherData" where
  "u_lau (U_lau b) = Inr b"
| "u_lau U_zero = Inr zero_lau"
| "u_lau _ = Inl UnionMismatch"

fun u_amm :: "OutfitUnion \<Rightarrow> fault + OutfitAmmoData" where
  "u_amm (U_amm b) = Inr b"
| "u_amm U_zero = Inr zero_amm"
| "u_amm _ = Inl UnionMismatch"

fun u_mod :: "OutfitUnion \<Rightarrow> fault + OutfitModificationData" where
  "u_mod (U_mod b) = Inr b"
| "u_mod U_zero = Inr zero_mod"
| "u_mod _ = Inl UnionMismatch"

fun u_afb :: "OutfitUnion \<Rightarrow> fault + OutfitAfterburnerData" where
  "u_afb (U_afb b) = Inr b"
| "u_afb U_zero = Inr zero_afb"
| "u_afb _ = Inl UnionMismatch"

fun u_map :: "OutfitUnion \<Rightarrow> fault + OutfitMapData" where
  "u_map (U_map b) = Inr b"
| "u_map U_zero = Inr zero_map"
| "u_map _ = Inl UnionMismatch"

fun u_jam :: "OutfitUnion \<Rightarrow> fault + OutfitJammerData" where
  "u_jam (U_jam b) = Inr b"
| "u_jam U_zero = Inr zero_jam"
| "u_jam _ = Inl UnionMismatch"

text \<open>\<open>rd m f\<close> is the read of field \<open>f\<close> through the member access \<open>m\<close>.\<close>

definition rd :: "fault + 'm \<Rightarrow> ('m \<Rightarrow> 'a) \<Rightarrow> fault + 'a" where
  "rd m f = (case m of Inl e \<Rightarrow> Inl e | Inr b \<Rightarrow> Inr (f b))"

subsection \<open>The accessors\<close>

text \<open>
  Each accessor is the source's chain of tests, in the source's order. The sentinels are
  \<open>None\<close> (the NULL texture), \<open>-1\<close> and \<open>DAMAGE_TYPE_NULL\<close>.
\<close>

definition outfit_gfx :: "Outfit \<Rightarrow> fault + glTexture option" where
  "outfit_gfx o' =
     (if outfit_isBolt o' then rd (u_blt (u o')) blt_gfx_space
      else if outfit_isAmmo o' then rd (u_amm (u o')) amm_gfx_space
      else if outfit_isTurret o' then rd (u_blt (u o')) blt_gfx_space
      else Inr None)"

definition outfit_spfx :: "Outfit \<Rightarrow> fault + int" where
  "outfit_spfx o' =
     (if outfit_isBolt o' then rd (u_blt (u o')) blt_spfx
      else if outfit_isAmmo o' then rd (u_amm (u o')) amm_spfx
      else if outfit_isTurret o' then rd (u_blt (u o')) blt_spfx
      else Inr (- 1))"

definition outfit_damage :: "Outfit \<Rightarrow> fault + real" where
  "outfit_damage o' =
     (if outfit_isBolt o' then rd (u_blt (u o')) blt_damage
      else if outfit_isBeam o' then rd (u_bem (u o')) bem_damage
      else if outfit_isAmmo o' then rd (u_amm (u o')) amm_damage
      else if outfit_isTurret o' then rd (u_blt (u o')) blt_damage
      else Inr (- 1))"

definition outfit_damageType :: "Outfit \<Rightarrow> fault + DamageType" where
  "outfit_damageType o' =
     (if outfit_isBolt o' then rd (u_blt (u o')) blt_dtype
      else if outfit_isBeam o' then rd (u_bem (u o')) bem_dtype
      else if outfit_isAmmo o' then rd (u_amm (u o')) amm_dtype
      else if outfit_isTurret o' then rd (u_blt (u o')) blt_dtype
      else Inr DAMAGE_TYPE_NULL)"

text \<open>
  \<^verbatim>\<open>outfit_delay\<close> returns \<^verbatim>\<open>int\<close>: the bolt and beam delays, which the parsers read
  as floating-point numbers, are converted by truncation towards zero.
\<close>

definition c_trunc :: "real \<Rightarrow> int" where
  "c_trunc x = (if 0 \<le> x then \<lfloor>x\<rfloor> else \<lceil>x\<rceil>)"

definition outfit_delay :: "Outfit \<Rightarrow> fault + int" where
  "outfit_delay o' =
     (if outfit_isBolt o' then rd (u_blt (u o')) (\<lambda>b. c_trunc (blt_delay b))
      else if outfit_isBeam o' then rd (u_bem (u o')) (\<lambda>b. c_trunc (bem_delay b))
      else if outfit_isLauncher o' then rd (u_lau (u o')) lau_delay
      else if outfit_isTurret o' then rd (u_blt (u o')) (\<lambda>b. c_trunc (blt_delay b))
      else Inr (- 1))"

definition outfit_energy :: "Outfit \<Rightarrow> fault + real" where
  "outfit_energy o' =
     (if outfit_isBolt o' then rd (u_blt (u o')) blt_energy
      else if outfit_isBeam o' then rd (u_bem (u o')) bem_energy
      else if outfit_isAmmo o' then rd (u_amm (u o')) amm_energy
      else if outfit_isTurret o' then rd (u_blt (u o')) blt_energy
      else Inr (- 1))"

definition outfit_range :: "Outfit \<Rightarrow> fault + real" where
  "outfit_range o' =
     (if outfit_isBolt o' then rd (u_blt (u o')) blt_range
      else if outfit_isBeam o' then rd (u_bem (u o')) bem_range
      else if outfit_isAmmo o' then rd (u_amm (u o')) (\<lambda>a. 0.8 * amm_speed a * amm_duration a)
      else if outfit_isTurret o' then rd (u_blt (u o')) blt_range
      else Inr (- 1))"

definition outfit_speed :: "Outfit \<Rightarrow> fault + real" where
  "outfit_speed o' =
     (if outfit_isBolt o' then rd (u_blt (u o')) blt_speed
      else if outfit_isAmmo o' then rd (u_amm (u o')) amm_speed
      else if outfit_isTurret o' then rd (u_blt (u o')) blt_speed
      else Inr (- 1))"

subsection \<open>Type names\<close>

definition outfit_typename :: "string list" where
  "outfit_typename =
     [''NULL'', ''Bolt Cannon'', ''Beam Cannon'', ''Bolt Turret'', ''Beam Turret'',
      ''Dumb Missile'', ''Dumb Missile Ammunition'', ''Seeker Missile'',
      ''Seeker Missile Ammunition'', ''Smart Seeker Missile'',
      ''Smart Seeker Missile Ammunition'', ''Swarm Missile'',
      ''Swarm Missile Ammunition Pack'', ''Smart Swarm Missile'',
      ''Smart Swarm Missile Ammunition Pack'', ''Ship Modification'', ''Afterburner'',
      ''Jammer'', ''Map'']"

text \<open>\<^verbatim>\<open>outfit_getType\<close> indexes the table by the type code, with no check of the code.\<close>

definition outfit_getType :: "Outfit \<Rightarrow> fault + string" where
  "outfit_getType o' =
     (if 0 \<le> type o' \<and> nat (type o') < length outfit_typename
      then Inr (outfit_typename ! nat (type o')) else Inl OutOfBounds)"

definition outfit_typenamebroad :: "string list" where
  "outfit_typenamebroad =
     [''NULL'', ''Bolt Weapon'', ''Beam Weapon'', ''Launcher'', ''Ammo'', ''Turret'',
      ''Modification'', ''Afterburner'', ''Jammer'', ''Map'']"

definition outfit_getTypeBroad_i :: "Outfit \<Rightarrow> nat" where
  "outfit_getTypeBroad_i o' =
     (if outfit_isBolt o' then 1
      else if outfit_isBeam o' then 2
      else if outfit_isLauncher o' then 3
      else if outfit_isAmmo o' then 4
      else if outfit_isTurret o' then 5
      else if outfit_isMod o' then 6
      else if outfit_isAfterburner o' then 7
      else if outfit_isJammer o' then 8
      else if outfit_isMap o' then 9
      else 0)"

definition outfit_getTypeBroad :: "Outfit \<Rightarrow> string" where
  "outfit_getTypeBroad o' = outfit_typenamebroad ! outfit_getTypeBroad_i o'"

subsection \<open>The type registry\<close>

text \<open>
  \<^verbatim>\<open>outfit_strToDamageType\<close> and \<^verbatim>\<open>outfit_strToOutfitType\<close>: a chain of \<^verbatim>\<open>strcmp\<close>
  tests on the argument, which a NULL argument faults.
\<close>

definition outfit_strToDamageType :: "string option \<Rightarrow> fault + DamageType" where
  "outfit_strToDamageType buf =
     (case buf of
        None \<Rightarrow> Inl NullDeref
      | Some s \<Rightarrow>
          Inr (if s = ''energy'' then DAMAGE_TYPE_ENERGY
               else if s = ''kinetic'' then DAMAGE_TYPE_KINETIC
               else if s = ''ion'' then DAMAGE_TYPE_ION
               else if s = ''radiation'' then DAMAGE_TYPE_RADIATION
               else DAMAGE_TYPE_NULL))"

definition outfit_strToOutfitType :: "string option \<Rightarrow> fault + OutfitType" where
  "outfit_strToOutfitType buf =
     (case buf of
        None \<Rightarrow> Inl NullDeref
      | Some s \<Rightarrow>
          Inr (if s = ''bolt'' then OUTFIT_TYPE_BOLT
               else if s = ''beam'' then OUTFIT_TYPE_BEAM
               else if s = ''turret bolt'' then OUTFIT_TYPE_TURRET_BOLT
               else if s = ''turret beam'' then OUTFIT_TYPE_TURRET_BEAM
               else if s = ''missile dumb'' then OUTFIT_TYPE_MISSILE_DUMB
               else if s = ''missile dumb ammo'' then OUTFIT_TYPE_MISSILE_DUMB_AMMO
               else if s = ''missile seek'' then OUTFIT_TYPE_MISSILE_SEEK
               else if s = ''missile seek ammo'' then OUTFIT_TYPE_MISSILE_SEEK_AMMO
               else if s = ''missile smart'' then OUTFIT_TYPE_MISSILE_SEEK_SMART
               else if s = ''missile smart ammo'' then OUTFIT_TYPE_MISSILE_SEEK_SMART_AMMO
               else if s = ''missile swarm'' then OUTFIT_TYPE_MISSILE_SWARM
               else if s = ''missile swarm ammo'' then OUTFIT_TYPE_MISSILE_SWARM_AMMO
               else if s = ''missile swarm smart'' then OUTFIT_TYPE_MISSILE_SWARM_SMART
               else if s = ''missile swarm smart ammo'' then OUTFIT_TYPE_MISSILE_SWARM_SMART_AMMO
               else if s = ''modification'' then OUTFIT_TYPE_MODIFCATION
               else if s = ''afterburner'' then OUTFIT_TYPE_AFTERBURNER
               else if s = ''map'' then OUTFIT_TYPE_MAP
               else if s = ''jammer'' then OUTFIT_TYPE_JAMMER
               else OUTFIT_TYPE_NULL))"

definition type_roundtrip :: "Outfit \<Rightarrow> fault + OutfitType" where
  "type_roundtrip o' =
     (case outfit_getType o' of Inl e \<Rightarrow> Inl e | Inr s \<Rightarrow> outfit_strToOutfitType (Some s))"

subsection \<open>The document\<close>

text \<open>
  Modelled from the spec: \<^verbatim>\<open>xml.h\<close> (the macros \<^verbatim>\<open>xml_isNode\<close>, \<^verbatim>\<open>xml_nextNode\<close>,
  \<^verbatim>\<open>xml_nodeProp\<close>, \<^verbatim>\<open>xml_get\<close>, \<^verbatim>\<open>xml_getInt\<close>, \<^verbatim>\<open>xml_getFloat\<close> and the
  \<^verbatim>\<open>xmlr_\<close> readers) is not part of the sources. A node is the part of libxml2's
  \<^verbatim>\<open>xmlNode\<close> that the macros read: its kind, name, content, attributes and children
  (the \<^verbatim>\<open>next\<close> chain of the first child is the list). The specification has a
  parser walk the immediate children of a fragment once and ignore the tags it does
  not know; a fragment without children is walked as an empty list, since every
  \<^verbatim>\<open>do ... while (xml_nextNode(node))\<close> of the source starts at a first child that may
  be NULL. An \<^verbatim>\<open>xmlr_\<close> reader assigns the field when the node has the given name.
\<close>

datatype xmlNode =
  XmlNode (n_type: int) (n_name: string) (n_content: "string option")
    (n_props: "(string \<times> string) list") (n_children: "xmlNode list")

abbreviation XML_NODE_START :: int where "XML_NODE_START \<equiv> 1"
abbreviation XML_NODE_TEXT :: int where "XML_NODE_TEXT \<equiv> 3"

definition xml_isNode :: "xmlNode option \<Rightarrow> string \<Rightarrow> bool" where
  "xml_isNode n s =
     (case n of None \<Rightarrow> False | Some x \<Rightarrow> n_type x = XML_NODE_START \<and> n_name x = s)"

definition xml_nodeProp :: "xmlNode \<Rightarrow> string \<Rightarrow> string option" where
  "xml_nodeProp n s = map_of (n_props n) s"

definition xml_get :: "xmlNode \<Rightarrow> string option" where
  "xml_get n = (case n_children n of [] \<Rightarrow> None | c # _ \<Rightarrow> n_content c)"

text \<open>
  The services the file calls and does not define: \<^verbatim>\<open>atof\<close> and \<^verbatim>\<open>atoi\<close> of the C
  library, the graphics, effect and sound registries, and the constant \<^verbatim>\<open>PATH_MAX\<close>.
  With them comes the layout of the union \<^verbatim>\<open>u\<close>, which \<^verbatim>\<open>outfit.h\<close> fixes and the
  sources do not show: \<open>as_blt E U\<close> is what the member \<^verbatim>\<open>blt\<close> holds when the
  bytes of the union are those of \<open>U\<close>, a union that stores another member, and so
  for the other members.
\<close>

record env =
  atof :: "string \<Rightarrow> real"
  atoi :: "string \<Rightarrow> int"
  gl_newSprite :: "string \<Rightarrow> int \<Rightarrow> int \<Rightarrow> glTexture option"
  gl_newImage :: "string \<Rightarrow> glTexture option"
  spfx_get :: "string option \<Rightarrow> int"
  sound_get :: "string option \<Rightarrow> int"
  PATH_MAX :: nat
  as_blt :: "OutfitUnion \<Rightarrow> OutfitBoltData"
  as_bem :: "OutfitUnion \<Rightarrow> OutfitBeamData"
  as_lau :: "OutfitUnion \<Rightarrow> OutfitLauncherData"
  as_amm :: "OutfitUnion \<Rightarrow> OutfitAmmoData"
  as_mod :: "OutfitUnion \<Rightarrow> OutfitModificationData"
  as_afb :: "OutfitUnion \<Rightarrow> OutfitAfterburnerData"
  as_map :: "OutfitUnion \<Rightarrow> OutfitMapData"
  as_jam :: "OutfitUnion \<Rightarrow> OutfitJammerData"

definition xml_getInt :: "env \<Rightarrow> xmlNode \<Rightarrow> int" where
  "xml_getInt E n = (case xml_get n of None \<Rightarrow> 0 | Some s \<Rightarrow> atoi E s)"

definition xml_getFloat :: "env \<Rightarrow> xmlNode \<Rightarrow> real" where
  "xml_getFloat E n = (case xml_get n of None \<Rightarrow> 0 | Some s \<Rightarrow> atof E s)"

text \<open>A loop body that may fault, run over the nodes of a list in order.\<close>

fun foldE :: "('s \<Rightarrow> 'x \<Rightarrow> fault + 's) \<Rightarrow> 's \<Rightarrow> 'x list \<Rightarrow> fault + 's" where
  "foldE f s [] = Inr s"
| "foldE f s (x # xs) = (case f s x of Inl e \<Rightarrow> Inl e | Inr s' \<Rightarrow> foldE f s' xs)"

text \<open>
  The path of a graphic: \<^verbatim>\<open>snprintf(str, strlen(xml_get(node)) + sizeof(OUTFIT_GFX) + 10,
  OUTFIT_GFX"space/%s.png", xml_get(node))\<close> into \<^verbatim>\<open>char str[PATH_MAX]\<close>. The size
  given is the length of the content plus 22, which is the length of the formatted
  path with its terminator, so the path is written whole; \<^verbatim>\<open>strlen\<close> faults on a
  node without content and the write leaves the buffer when the size exceeds
  \<^verbatim>\<open>PATH_MAX\<close>.
\<close>

definition OUTFIT_GFX :: string where
  "OUTFIT_GFX = ''gfx/outfit/''"

definition gfx_path :: "env \<Rightarrow> string \<Rightarrow> xmlNode \<Rightarrow> fault + string" where
  "gfx_path E dir n =
     (case xml_get n of
        None \<Rightarrow> Inl NullDeref
      | Some s \<Rightarrow>
          if PATH_MAX E < length s + (length OUTFIT_GFX + 1) + 10 then Inl OutOfBounds
          else Inr (OUTFIT_GFX @ dir @ s @ ''.png''))"

subsection \<open>The variant parsers\<close>

text \<open>
  A variant parser writes the fields of its member of \<^verbatim>\<open>temp->u\<close> that the section
  gives and leaves the others. It starts from what its member holds: the member as
  stored, zeros in the zeroed union of a fresh record, and what the layout makes of
  the stored bytes when an earlier section has stored another member. The parser
  returns in each of the three cases, and its member is the one stored afterwards.
\<close>

definition member_blt :: "env \<Rightarrow> OutfitUnion \<Rightarrow> OutfitBoltData" where
  "member_blt E U = (case u_blt U of Inr b \<Rightarrow> b | Inl e \<Rightarrow> as_blt E U)"

definition member_bem :: "env \<Rightarrow> OutfitUnion \<Rightarrow> OutfitBeamData" where
  "member_bem E U = (case u_bem U of Inr b \<Rightarrow> b | Inl e \<Rightarrow> as_bem E U)"

definition member_lau :: "env \<Rightarrow> OutfitUnion \<Rightarrow> OutfitLauncherData" where
  "member_lau E U = (case u_lau U of Inr b \<Rightarrow> b | Inl e \<Rightarrow> as_lau E U)"

definition member_amm :: "env \<Rightarrow> OutfitUnion \<Rightarrow> OutfitAmmoData" where
  "member_amm E U = (case u_amm U of Inr b \<Rightarrow> b | Inl e \<Rightarrow> as_amm E U)"

definition member_mod :: "env \<Rightarrow> OutfitUnion \<Rightarrow> OutfitModificationData" where
  "member_mod E U = (case u_mod U of Inr b \<Rightarrow> b | Inl e \<Rightarrow> as_mod E U)"

definition member_afb :: "env \<Rightarrow> OutfitUnion \<Rightarrow> OutfitAfterburnerData" where
  "member_afb E U = (case u_afb U of Inr b \<Rightarrow> b | Inl e \<Rightarrow> as_afb E U)"

definition member_map :: "env \<Rightarrow> OutfitUnion \<Rightarrow> OutfitMapData" where
  "member_map E U = (case u_map U of Inr b \<Rightarrow> b | Inl e \<Rightarrow> as_map E U)"

definition member_jam :: "env \<Rightarrow> OutfitUnion \<Rightarrow> OutfitJammerData" where
  "member_jam E U = (case u_jam U of Inr b \<Rightarrow> b | Inl e \<Rightarrow> as_jam E U)"

text \<open>
  \<^verbatim>\<open>outfit_parseDamage\<close>: the pair is what is stored through the two output
  parameters; the returned status is used by no caller.
\<close>

definition outfit_parseDamage :: "env \<Rightarrow> xmlNode \<Rightarrow> fault + (DamageType \<times> real)" where
  "outfit_parseDamage E node =
     (if xml_isNode (Some node) ''damage'' then
        (case outfit_strToDamageType (xml_nodeProp node ''type'') of
           Inl e \<Rightarrow> Inl e
         | Inr dt \<Rightarrow> Inr (dt, xml_getFloat E node))
      else Inr (DAMAGE_TYPE_NULL, 0))"

definition parseSBolt_node :: "env \<Rightarrow> OutfitBoltData \<Rightarrow> xmlNode \<Rightarrow> fault + OutfitBoltData" where
  "parseSBolt_node E b node =
     (if xml_isNode (Some node) ''speed'' then Inr (b\<lparr>blt_speed := xml_getFloat E node\<rparr>)
      else if xml_isNode (Some node) ''delay'' then Inr (b\<lparr>blt_delay := xml_getFloat E node\<rparr>)
      else if xml_isNode (Some node) ''range'' then Inr (b\<lparr>blt_range := xml_getFloat E node\<rparr>)
      else if xml_isNode (Some node) ''accuracy'' then
        Inr (b\<lparr>blt_accuracy := xml_getFloat E node\<rparr>)
      else if xml_isNode (Some node) ''energy'' then Inr (b\<lparr>blt_energy := xml_getFloat E node\<rparr>)
      else if xml_isNode (Some node) ''gfx'' then
        (case gfx_path E ''space/'' node of
           Inl e \<Rightarrow> Inl e
         | Inr str \<Rightarrow> Inr (b\<lparr>blt_gfx_space := gl_newSprite E str 6 6\<rparr>))
      else if xml_isNode (Some node) ''spfx'' then
        Inr (b\<lparr>blt_spfx := spfx_get E (xml_get node)\<rparr>)
      else if xml_isNode (Some node) ''sound'' then
        Inr (b\<lparr>blt_sound := sound_get E (xml_get node)\<rparr>)
      else if xml_isNode (Some node) ''damage'' then
        (case outfit_parseDamage E node of
           Inl e \<Rightarrow> Inl e
         | Inr (dt, dmg) \<Rightarrow> Inr (b\<lparr>blt_dtype := dt, blt_damage := dmg\<rparr>))
      else Inr b)"

definition outfit_parseSBolt :: "env \<Rightarrow> Outfit \<Rightarrow> xmlNode \<Rightarrow> fault + Outfit" where
  "outfit_parseSBolt E temp parent =
     (case foldE (parseSBolt_node E) ((member_blt E (u temp))\<lparr>blt_sound := - 1\<rparr>)
             (n_children parent) of
        Inl e \<Rightarrow> Inl e
      | Inr b \<Rightarrow> Inr (temp\<lparr>u := U_blt b\<rparr>))"

definition parseSBeam_node :: "env \<Rightarrow> OutfitBeamData \<Rightarrow> xmlNode \<Rightarrow> fault + OutfitBeamData" where
  "parseSBeam_node E b node =
     (if xml_isNode (Some node) ''range'' then Inr (b\<lparr>bem_range := xml_getFloat E node\<rparr>)
      else if xml_isNode (Some node) ''turn'' then Inr (b\<lparr>bem_turn := xml_getFloat E node\<rparr>)
      else if xml_isNode (Some node) ''energy'' then Inr (b\<lparr>bem_energy := xml_getFloat E node\<rparr>)
      else if xml_isNode (Some node) ''damage'' then
        (case outfit_parseDamage E node of
           Inl e \<Rightarrow> Inl e
         | Inr (dt, dmg) \<Rightarrow> Inr (b\<lparr>bem_dtype := dt, bem_damage := dmg\<rparr>))
      else Inr b)"

definition outfit_parseSBeam :: "env \<Rightarrow> Outfit \<Rightarrow> xmlNode \<Rightarrow> fault + Outfit" where
  "outfit_parseSBeam E temp parent =
     (case foldE (parseSBeam_node E) (member_bem E (u temp)) (n_children parent) of
        Inl e \<Rightarrow> Inl e
      | Inr b \<Rightarrow> Inr (temp\<lparr>u := U_bem (b\<lparr>bem_colour := Some ''cWhite''\<rparr>)\<rparr>))"

text \<open>\<^verbatim>\<open>strdup\<close> reads its argument: the ammo name of a node without content faults.\<close>

definition parseSLauncher_node ::
  "env \<Rightarrow> OutfitLauncherData \<Rightarrow> xmlNode \<Rightarrow> fault + OutfitLauncherData" where
  "parseSLauncher_node E l node =
     (if xml_isNode (Some node) ''delay'' then Inr (l\<lparr>lau_delay := xml_getInt E node\<rparr>)
      else if xml_isNode (Some node) ''ammo'' then
        (case xml_get node of
           None \<Rightarrow> Inl NullDeref
         | Some s \<Rightarrow> Inr (l\<lparr>lau_ammo := Some s\<rparr>))
      else Inr l)"

definition outfit_parseSLauncher :: "env \<Rightarrow> Outfit \<Rightarrow> xmlNode \<Rightarrow> fault + Outfit" where
  "outfit_parseSLauncher E temp parent =
     (case foldE (parseSLauncher_node E) (member_lau E (u temp)) (n_children parent) of
        Inl e \<Rightarrow> Inl e
      | Inr l \<Rightarrow> Inr (temp\<lparr>u := U_lau l\<rparr>))"

definition parseSAmmo_node :: "env \<Rightarrow> OutfitAmmoData \<Rightarrow> xmlNode \<Rightarrow> fault + OutfitAmmoData" where
  "parseSAmmo_node E a node =
     (if xml_isNode (Some node) ''duration'' then Inr (a\<lparr>amm_duration := xml_getFloat E node\<rparr>)
      else if xml_isNode (Some node) ''lockon'' then Inr (a\<lparr>amm_lockon := xml_getFloat E node\<rparr>)
      else if xml_isNode (Some node) ''resist'' then Inr (a\<lparr>amm_resist := xml_getFloat E node\<rparr>)
      else if xml_isNode (Some node) ''thrust'' then Inr (a\<lparr>amm_thrust := xml_getFloat E node\<rparr>)
      else if xml_isNode (Some node) ''turn'' then Inr (a\<lparr>amm_turn := xml_getFloat E node\<rparr>)
      else if xml_isNode (Some node) ''speed'' then Inr (a\<lparr>amm_speed := xml_getFloat E node\<rparr>)
      else if xml_isNode (Some node) ''energy'' then Inr (a\<lparr>amm_energy := xml_getFloat E node\<rparr>)
      else if xml_isNode (Some node) ''gfx'' then
        (case gfx_path E ''space/'' node of
           Inl e \<Rightarrow> Inl e
         | Inr str \<Rightarrow> Inr (a\<lparr>amm_gfx_space := gl_newSprite E str 6 6\<rparr>))
      else if xml_isNode (Some node) ''spfx'' then
        Inr (a\<lparr>amm_spfx := spfx_get E (xml_get node)\<rparr>)
      else if xml_isNode (Some node) ''sound'' then
        Inr (a\<lparr>amm_sound := sound_get E (xml_get node)\<rparr>)
      else if xml_isNode (Some node) ''damage'' then
        (case outfit_parseDamage E node of
           Inl e \<Rightarrow> Inl e
         | Inr (dt, dmg) \<Rightarrow> Inr (a\<lparr>amm_dtype := dt, amm_damage := dmg\<rparr>))
      else Inr a)"

definition outfit_parseSAmmo :: "env \<Rightarrow> Outfit \<Rightarrow> xmlNode \<Rightarrow> fault + Outfit" where
  "outfit_parseSAmmo E temp parent =
     (case foldE (parseSAmmo_node E) (member_amm E (u temp)) (n_children parent) of
        Inl e \<Rightarrow> Inl e
      | Inr a \<Rightarrow> Inr (temp\<lparr>u := U_amm (a\<lparr>amm_resist := amm_resist a / 100\<rparr>)\<rparr>))"

definition parseSMod_node :: "env \<Rightarrow> OutfitModificationData \<Rightarrow> xmlNode \<Rightarrow> OutfitModificationData"
  where
  "parseSMod_node E m node =
     (if xml_isNode (Some node) ''thrust'' then m\<lparr>mod_thrust := xml_getFloat E node\<rparr>
      else if xml_isNode (Some node) ''turn'' then m\<lparr>mod_turn := xml_getFloat E node\<rparr>
      else if xml_isNode (Some node) ''speed'' then m\<lparr>mod_speed := xml_getFloat E node\<rparr>
      else if xml_isNode (Some node) ''armour'' then m\<lparr>mod_armour := xml_getFloat E node\<rparr>
      else if xml_isNode (Some node) ''shield'' then m\<lparr>mod_shield := xml_getFloat E node\<rparr>
      else if xml_isNode (Some node) ''energy'' then m\<lparr>mod_energy := xml_getFloat E node\<rparr>
      else if xml_isNode (Some node) ''fuel'' then m\<lparr>mod_fuel := xml_getFloat E node\<rparr>
      else if xml_isNode (Some node) ''armour_regen'' then
        m\<lparr>mod_armour_regen := xml_getFloat E node / 60\<rparr>
      else if xml_isNode (Some node) ''shield_regen'' then
        m\<lparr>mod_shield_regen := xml_getFloat E node / 60\<rparr>
      else if xml_isNode (Some node) ''energy_regen'' then
        m\<lparr>mod_energy_regen := xml_getFloat E node / 60\<rparr>
      else if xml_isNode (Some node) ''cargo'' then m\<lparr>mod_cargo := xml_getInt E node\<rparr>
      else m)"

definition outfit_parseSMod :: "env \<Rightarrow> Outfit \<Rightarrow> xmlNode \<Rightarrow> fault + Outfit" where
  "outfit_parseSMod E temp parent =
     Inr (temp\<lparr>u := U_mod (foldl (parseSMod_node E) (member_mod E (u temp))
            (n_children parent))\<rparr>)"

definition parseSAfterburner_node ::
  "env \<Rightarrow> OutfitAfterburnerData \<Rightarrow> xmlNode \<Rightarrow> OutfitAfterburnerData" where
  "parseSAfterburner_node E a node =
     (if xml_isNode (Some node) ''rumble'' then a\<lparr>afb_rumble := xml_getFloat E node\<rparr>
      else
        (let a1 = (if xml_isNode (Some node) ''sound''
                   then a\<lparr>afb_sound := sound_get E (xml_get node)\<rparr> else a);
             a2 = (if xml_isNode (Some node) ''thrust_perc''
                   then a1\<lparr>afb_thrust_perc := 1 + xml_getFloat E node / 100\<rparr> else a1)
         in if xml_isNode (Some node) ''thrust_abs'' then a2\<lparr>afb_thrust_abs := xml_getFloat E node\<rparr>
            else
              (let a3 = (if xml_isNode (Some node) ''speed_perc''
                         then a2\<lparr>afb_speed_perc := 1 + xml_getFloat E node / 100\<rparr> else a2)
               in if xml_isNode (Some node) ''speed_abs''
                  then a3\<lparr>afb_speed_abs := xml_getFloat E node\<rparr>
                  else if xml_isNode (Some node) ''energy''
                  then a3\<lparr>afb_energy := xml_getFloat E node\<rparr>
                  else a3)))"

definition outfit_parseSAfterburner :: "env \<Rightarrow> Outfit \<Rightarrow> xmlNode \<Rightarrow> fault + Outfit" where
  "outfit_parseSAfterburner E temp parent =
     Inr (temp\<lparr>u := U_afb (foldl (parseSAfterburner_node E)
            ((member_afb E (u temp))\<lparr>afb_thrust_perc := 1, afb_speed_perc := 1\<rparr>)
            (n_children parent))\<rparr>)"

definition parseSMap_node :: "env \<Rightarrow> OutfitMapData \<Rightarrow> xmlNode \<Rightarrow> OutfitMapData" where
  "parseSMap_node E m node =
     (if xml_isNode (Some node) ''radius'' then m\<lparr>map_radius := xml_getInt E node\<rparr> else m)"

definition outfit_parseSMap :: "env \<Rightarrow> Outfit \<Rightarrow> xmlNode \<Rightarrow> fault + Outfit" where
  "outfit_parseSMap E temp parent =
     Inr (temp\<lparr>u := U_map (foldl (parseSMap_node E) (member_map E (u temp))
            (n_children parent))\<rparr>)"

text \<open>
  \<^verbatim>\<open>outfit_parseSJammer\<close>: the loop over the children stores what the document gives,
  and the two divisions after the loop convert the chance and the energy.
\<close>

definition parseSJammer_node :: "env \<Rightarrow> OutfitJammerData \<Rightarrow> xmlNode \<Rightarrow> OutfitJammerData" where
  "parseSJammer_node E j node =
     (if xml_isNode (Some node) ''range'' then j\<lparr>jam_range := xml_getFloat E node\<rparr>
      else if xml_isNode (Some node) ''chance'' then j\<lparr>jam_chance := xml_getFloat E node\<rparr>
      else if xml_isNode (Some node) ''energy'' then j\<lparr>jam_energy := xml_getFloat E node\<rparr>
      else j)"

definition outfit_parseSJammer :: "env \<Rightarrow> Outfit \<Rightarrow> xmlNode \<Rightarrow> fault + Outfit" where
  "outfit_parseSJammer E temp parent =
     (let j = foldl (parseSJammer_node E) (member_jam E (u temp)) (n_children parent);
          j1 = j\<lparr>jam_chance := jam_chance j / 100\<rparr>;
          j2 = j1\<lparr>jam_energy := jam_energy j1 / 60\<rparr>
      in Inr (temp\<lparr>u := U_jam j2\<rparr>))"

subsection \<open>Parsing one outfit\<close>

definition outfit_zero :: Outfit where
  "outfit_zero = \<lparr>name = None, type = OUTFIT_TYPE_NULL, max_q = 0, tech = 0, mass = 0, price = 0,
     description = None, gfx_store = None, properties = 0, u = U_zero\<rparr>"

text \<open>
  Modelled from the spec: \<^verbatim>\<open>OUTFIT_PROP_WEAP_SECONDARY\<close> is a constant of
  \<^verbatim>\<open>outfit.h\<close>; it is the one flag of the bit set, taken as the lowest bit.
\<close>

definition OUTFIT_PROP_WEAP_SECONDARY :: nat where
  "OUTFIT_PROP_WEAP_SECONDARY = 1"

definition outfit_setProp :: "Outfit \<Rightarrow> nat \<Rightarrow> Outfit" where
  "outfit_setProp o' p = o'\<lparr>properties := or (properties o') p\<rparr>"

text \<open>The children of a \<^verbatim>\<open>general\<close> section.\<close>

definition parse_general_node :: "env \<Rightarrow> Outfit \<Rightarrow> xmlNode \<Rightarrow> fault + Outfit" where
  "parse_general_node E temp cur =
     (if xml_isNode (Some cur) ''max'' then Inr (temp\<lparr>max_q := xml_getInt E cur\<rparr>)
      else if xml_isNode (Some cur) ''tech'' then Inr (temp\<lparr>tech := xml_getInt E cur\<rparr>)
      else if xml_isNode (Some cur) ''mass'' then Inr (temp\<lparr>mass := xml_getInt E cur\<rparr>)
      else if xml_isNode (Some cur) ''price'' then Inr (temp\<lparr>price := xml_getInt E cur\<rparr>)
      else if xml_isNode (Some cur) ''description'' then
        (case xml_get cur of
           None \<Rightarrow> Inl NullDeref
         | Some s \<Rightarrow> Inr (temp\<lparr>description := Some s\<rparr>))
      else if xml_isNode (Some cur) ''gfx_store'' then
        (case gfx_path E ''store/'' cur of
           Inl e \<Rightarrow> Inl e
         | Inr str \<Rightarrow> Inr (temp\<lparr>gfx_store := gl_newImage E str\<rparr>))
      else Inr temp)"

text \<open>
  A \<^verbatim>\<open>specific\<close> section: the type, the secondary flag, and the variant parser that
  the first matching predicate selects. A section without a \<^verbatim>\<open>type\<close> attribute
  hands NULL to \<^verbatim>\<open>outfit_strToOutfitType\<close>.
\<close>

definition parse_specific :: "env \<Rightarrow> Outfit \<Rightarrow> xmlNode \<Rightarrow> fault + Outfit" where
  "parse_specific E temp node =
     (case outfit_strToOutfitType (xml_nodeProp node ''type'') of
        Inl e \<Rightarrow> Inl e
      | Inr ty \<Rightarrow>
          (let temp1 = temp\<lparr>type := ty\<rparr>;
               temp2 = (case xml_nodeProp node ''secondary'' of
                          None \<Rightarrow> temp1
                        | Some prop \<Rightarrow>
                            if atoi E prop \<noteq> 0
                            then outfit_setProp temp1 OUTFIT_PROP_WEAP_SECONDARY else temp1)
           in if type temp2 = OUTFIT_TYPE_NULL then Inr temp2
              else if outfit_isBolt temp2 then outfit_parseSBolt E temp2 node
              else if outfit_isBeam temp2 then outfit_parseSBeam E temp2 node
              else if outfit_isLauncher temp2 then outfit_parseSLauncher E temp2 node
              else if outfit_isAmmo temp2 then outfit_parseSAmmo E temp2 node
              else if outfit_isMod temp2 then outfit_parseSMod E temp2 node
              else if outfit_isAfterburner temp2 then outfit_parseSAfterburner E temp2 node
              else if outfit_isMap temp2 then outfit_parseSMap E temp2 node
              else if outfit_isJammer temp2 then outfit_parseSJammer E temp2 node
              else Inr temp2))"

definition outfit_parse_node :: "env \<Rightarrow> Outfit \<Rightarrow> xmlNode \<Rightarrow> fault + Outfit" where
  "outfit_parse_node E temp node =
     (if xml_isNode (Some node) ''general'' then
        foldE (parse_general_node E) temp (n_children node)
      else if xml_isNode (Some node) ''specific'' then parse_specific E temp node
      else Inr temp)"

definition outfit_parse :: "env \<Rightarrow> xmlNode \<Rightarrow> fault + Outfit" where
  "outfit_parse E parent =
     foldE (outfit_parse_node E) (outfit_zero\<lparr>name := xml_nodeProp parent ''name''\<rparr>)
       (n_children parent)"

subsection \<open>Loading the catalog\<close>

text \<open>
  \<^verbatim>\<open>outfit_load\<close>. The document is what \<^verbatim>\<open>xmlParseMemory\<close> returns: \<open>None\<close> for
  NULL, else the chain of the document's children. The state is \<^verbatim>\<open>outfit_stack\<close>
  (\<^verbatim>\<open>outfit_nstack\<close> is its length); the result is the returned status, the stack
  afterwards and what was reported.
\<close>

definition XML_OUTFIT_ID :: string where
  "XML_OUTFIT_ID = ''Outfits''"

definition XML_OUTFIT_TAG :: string where
  "XML_OUTFIT_TAG = ''outfit''"

definition load_node :: "env \<Rightarrow> Outfit list \<Rightarrow> xmlNode \<Rightarrow> fault + Outfit list" where
  "load_node E outfit_stack node =
     (if xml_isNode (Some node) XML_OUTFIT_TAG then
        (case outfit_parse E node of
           Inl e \<Rightarrow> Inl e
         | Inr temp \<Rightarrow> Inr (outfit_stack @ [temp]))
      else Inr outfit_stack)"

definition outfit_load ::
  "env \<Rightarrow> Outfit list \<Rightarrow> xmlNode list option \<Rightarrow> fault + (int \<times> Outfit list \<times> report list)" where
  "outfit_load E outfit_stack doc =
     (case doc of
        None \<Rightarrow> Inl NullDeref
      | Some nodes \<Rightarrow>
          (case (case nodes of [] \<Rightarrow> None | x # _ \<Rightarrow> Some x) of
             None \<Rightarrow> Inr (- 1, outfit_stack, [ERR_missing_root])
           | Some node \<Rightarrow>
               if \<not> xml_isNode (Some node) XML_OUTFIT_ID
               then Inr (- 1, outfit_stack, [ERR_missing_root])
               else
                 (case n_children node of
                    [] \<Rightarrow> Inr (- 1, outfit_stack, [ERR_no_elements])
                  | kids \<Rightarrow>
                      (case foldE (load_node E) outfit_stack kids of
                         Inl e \<Rightarrow> Inl e
                       | Inr st \<Rightarrow> Inr (0, st, [])))))"

subsection \<open>Listing by technology\<close>

text \<open>
  \<^verbatim>\<open>outfit_getTech\<close>. The array \<^verbatim>\<open>tech\<close> with its length \<^verbatim>\<open>techmax\<close> is a list.
  The first loop collects the available outfits into \<^verbatim>\<open>outfits\<close>, an array of
  \<^verbatim>\<open>outfit_nstack\<close> pointers: a store at an index from \<^verbatim>\<open>outfit_nstack\<close> on leaves
  the array, and reading \<^verbatim>\<open>tech[0]\<close> of an empty array leaves that one.
\<close>

definition getTech_push :: "nat \<Rightarrow> Outfit list \<Rightarrow> Outfit \<Rightarrow> fault + Outfit list" where
  "getTech_push n outfits x = (if length outfits < n then Inr (outfits @ [x]) else Inl OutOfBounds)"

definition getTech_special :: "int list \<Rightarrow> nat \<Rightarrow> Outfit \<Rightarrow> Outfit list \<Rightarrow> nat \<Rightarrow> fault + Outfit list"
  where
  "getTech_special techs n x outfits j =
     (if techs ! j = tech x then getTech_push n outfits x else Inr outfits)"

definition getTech_entry :: "int list \<Rightarrow> nat \<Rightarrow> Outfit list \<Rightarrow> Outfit \<Rightarrow> fault + Outfit list" where
  "getTech_entry techs n outfits x =
     (case techs of
        [] \<Rightarrow> Inl OutOfBounds
      | t0 # _ \<Rightarrow>
          if tech x \<le> t0 then getTech_push n outfits x
          else foldE (getTech_special techs n x) outfits [0..<length techs])"

definition getTech_avail :: "int list \<Rightarrow> Outfit list \<Rightarrow> fault + Outfit list" where
  "getTech_avail techs outfit_stack =
     foldE (getTech_entry techs (length outfit_stack)) [] outfit_stack"

text \<open>
  The test whether a name is already among \<^verbatim>\<open>outfitnames[0 .. n)\<close>: the value of
  \<^verbatim>\<open>k\<close> when the loop ends, which is \<^verbatim>\<open>n\<close> when no entry matched.
\<close>

fun getTech_find :: "string list \<Rightarrow> string option \<Rightarrow> nat \<Rightarrow> fault + nat" where
  "getTech_find [] nm k = Inr k"
| "getTech_find (s # ss) nm k =
     (case nm of
        None \<Rightarrow> Inl NullDeref
      | Some t \<Rightarrow> if s = t then Inr k else getTech_find ss nm (Suc k))"

text \<open>
  The scan \<^verbatim>\<open>for (j=0; j<num; j++)\<close> for the cheapest outfit of the current type that
  is not listed yet; \<open>pr\<close> is the variable \<^verbatim>\<open>price\<close>, \<open>None\<close> for \<^verbatim>\<open>-1\<close>.
\<close>

fun getTech_cheapest ::
  "Outfit list \<Rightarrow> string list \<Rightarrow> OutfitType \<Rightarrow> nat list \<Rightarrow> nat option \<Rightarrow> fault + nat option" where
  "getTech_cheapest outfits names ty [] pr = Inr pr"
| "getTech_cheapest outfits names ty (j # js) pr =
     (if type (outfits ! j) \<noteq> ty then getTech_cheapest outfits names ty js pr
      else if (case pr of None \<Rightarrow> True | Some p \<Rightarrow> price (outfits ! p) > price (outfits ! j))
      then
        (case getTech_find names (name (outfits ! j)) 0 of
           Inl e \<Rightarrow> Inl e
         | Inr k \<Rightarrow>
             getTech_cheapest outfits names ty js (if k = length names then Some j else pr))
      else getTech_cheapest outfits names ty js pr)"

text \<open>
  The loop \<^verbatim>\<open>while (type < OUTFIT_TYPE_SENTINEL)\<close>; \<open>names\<close> is
  \<^verbatim>\<open>outfitnames[0 .. *n)\<close>, an array of \<^verbatim>\<open>num\<close> pointers, which a store at index
  \<^verbatim>\<open>num\<close> leaves. \<^verbatim>\<open>strdup\<close> reads the name it copies.
\<close>

function getTech_sort :: "Outfit list \<Rightarrow> string list \<Rightarrow> OutfitType \<Rightarrow> fault + string list" where
  "getTech_sort outfits names ty =
     (if ty < OUTFIT_TYPE_SENTINEL then
        (case getTech_cheapest outfits names ty [0..<length outfits] None of
           Inl e \<Rightarrow> Inl e
         | Inr None \<Rightarrow> getTech_sort outfits names (ty + 1)
         | Inr (Some p) \<Rightarrow>
             (case name (outfits ! p) of
                None \<Rightarrow> Inl NullDeref
              | Some s \<Rightarrow>
                  if length names < length outfits then getTech_sort outfits (names @ [s]) ty
                  else Inl OutOfBounds))
      else Inr names)"
  by pat_completeness auto
termination
  by (relation "measures [\<lambda>(outfits, names, ty). nat (OUTFIT_TYPE_SENTINEL - ty),
                           \<lambda>(outfits, names, ty). length outfits - length names]") auto

definition outfit_getTech :: "int list \<Rightarrow> Outfit list \<Rightarrow> fault + string list" where
  "outfit_getTech techs outfit_stack =
     (case getTech_avail techs outfit_stack of
        Inl e \<Rightarrow> Inl e
      | Inr outfits \<Rightarrow> getTech_sort outfits [] (OUTFIT_TYPE_NULL + 1))"

subsection \<open>Notions used to state the properties\<close>

text \<open>
  The value a list of child nodes gives for a tag: the number in the last child of
  that name, or the default when there is none.
\<close>

definition doc_float :: "env \<Rightarrow> string \<Rightarrow> real \<Rightarrow> xmlNode list \<Rightarrow> real" where
  "doc_float E tag d kids =
     foldl (\<lambda>v n. if xml_isNode (Some n) tag then xml_getFloat E n else v) d kids"

text \<open>
  A \<^verbatim>\<open>general\<close> section is well formed when each \<^verbatim>\<open>description\<close> child has a
  content and each \<^verbatim>\<open>gfx_store\<close> child has one whose path fits the buffer.
\<close>

definition general_child_ok :: "env \<Rightarrow> xmlNode \<Rightarrow> bool" where
  "general_child_ok E cur =
     ((if xml_isNode (Some cur) ''description'' then xml_get cur \<noteq> None else True) \<and>
      (if xml_isNode (Some cur) ''gfx_store''
       then (case xml_get cur of
               None \<Rightarrow> False
             | Some s \<Rightarrow> length s + (length OUTFIT_GFX + 1) + 10 \<le> PATH_MAX E)
       else True))"

definition general_ok :: "env \<Rightarrow> xmlNode \<Rightarrow> bool" where
  "general_ok E n = list_all (general_child_ok E) (n_children n)"

text \<open>The root element of a document: the first element among its children.\<close>

definition doc_root :: "xmlNode list \<Rightarrow> xmlNode option" where
  "doc_root nodes = find (\<lambda>n. n_type n = XML_NODE_START) nodes"

text \<open>
  An environment for the examples: a number is read from the decimal digits a string
  starts with (on a string of digits this is what \<^verbatim>\<open>atoi\<close> and \<^verbatim>\<open>atof\<close> return), a
  graphic is the handle 1, an effect or a sound the id 0, \<^verbatim>\<open>PATH_MAX\<close> is 4096, and
  a member reads the bytes of another member as zeros.
\<close>

fun digits_value :: "string \<Rightarrow> nat \<Rightarrow> nat" where
  "digits_value [] acc = acc"
| "digits_value (c # cs) acc =
     (if 48 \<le> (of_char c :: nat) \<and> (of_char c :: nat) \<le> 57
      then digits_value cs (10 * acc + (of_char c - 48)) else acc)"

definition example_env :: env where
  "example_env =
     \<lparr>atof = (\<lambda>s. real (digits_value s 0)), atoi = (\<lambda>s. int (digits_value s 0)),
      gl_newSprite = (\<lambda>p sx sy. Some 1), gl_newImage = (\<lambda>p. Some 1),
      spfx_get = (\<lambda>s. 0), sound_get = (\<lambda>s. 0), PATH_MAX = 4096,
      as_blt = (\<lambda>U. zero_blt), as_bem = (\<lambda>U. zero_bem), as_lau = (\<lambda>U. zero_lau),
      as_amm = (\<lambda>U. zero_amm), as_mod = (\<lambda>U. zero_mod), as_afb = (\<lambda>U. zero_afb),
      as_map = (\<lambda>U. zero_map), as_jam = (\<lambda>U. zero_jam)\<rparr>"

text \<open>Element and text nodes as the XML parser builds them.\<close>

definition xml_element :: "string \<Rightarrow> (string \<times> string) list \<Rightarrow> xmlNode list \<Rightarrow> xmlNode" where
  "xml_element tag props kids = XmlNode XML_NODE_START tag None props kids"

definition xml_text :: "string \<Rightarrow> xmlNode" where
  "xml_text s = XmlNode XML_NODE_TEXT ''text'' (Some s) [] []"

definition xml_leaf :: "string \<Rightarrow> string \<Rightarrow> xmlNode" where
  "xml_leaf tag s = xml_element tag [] [xml_text s]"

definition example_outfit :: "string \<Rightarrow> OutfitType \<Rightarrow> int \<Rightarrow> int \<Rightarrow> Outfit" where
  "example_outfit nm ty t p = outfit_zero\<lparr>name := Some nm, type := ty, tech := t, price := p\<rparr>"

definition example_jammer :: xmlNode where
  "example_jammer =
     xml_element ''outfit'' [(''name'', ''Jammer'')]
       [xml_text '' '',
        xml_element ''general'' []
          [xml_leaf ''max'' ''1'', xml_leaf ''tech'' ''3'', xml_leaf ''price'' ''900'',
           xml_leaf ''description'' ''Jams'', xml_leaf ''gfx_store'' ''jammer''],
        xml_element ''specific'' [(''type'', ''jammer'')]
          [xml_leaf ''range'' ''500'', xml_leaf ''chance'' ''40'', xml_leaf ''energy'' ''12'']]"

definition example_unresolvable :: xmlNode where
  "example_unresolvable =
     xml_element ''outfit'' [(''name'', ''Plasma'')]
       [xml_text '' '',
        xml_element ''general'' []
          [xml_leaf ''price'' ''5'', xml_leaf ''description'' ''?'',
           xml_leaf ''gfx_store'' ''plasma''],
        xml_element ''specific'' [(''type'', ''plasma'')] [xml_leaf ''range'' ''7''],
        xml_text '' '']"

definition example_map :: xmlNode where
  "example_map =
     xml_element ''outfit'' [(''name'', ''Map'')]
       [xml_element ''specific'' [(''type'', ''map'')] [xml_leaf ''radius'' ''3'']]"

definition example_nameless :: xmlNode where
  "example_nameless =
     xml_element ''outfit'' [] [xml_element ''general'' [] [xml_leaf ''price'' ''5'']]"

definition example_laser_cannon :: xmlNode where
  "example_laser_cannon =
     xml_element ''outfit'' [(''name'', ''Laser Cannon'')]
       [xml_element ''specific'' [(''type'', ''bolt'')]
          [xml_leaf ''delay'' ''500'', xml_leaf ''speed'' ''800'', xml_leaf ''range'' ''1400'',
           xml_leaf ''accuracy'' ''10'', xml_leaf ''energy'' ''2'',
           xml_element ''damage'' [(''type'', ''kinetic'')] [xml_text ''12'']]]"

definition example_turret_beam :: xmlNode where
  "example_turret_beam =
     xml_element ''outfit'' [(''name'', ''Beam Turret'')]
       [xml_element ''specific'' [(''type'', ''turret beam'')]
          [xml_leaf ''range'' ''300'', xml_leaf ''energy'' ''2'']]"

text \<open>
  The order of a listing: by type code, and by price among outfits of one type.
\<close>

definition type_price_le :: "Outfit \<Rightarrow> Outfit \<Rightarrow> bool" where
  "type_price_le a b = (type a < type b \<or> (type a = type b \<and> price a \<le> price b))"

text \<open>A list of keys is grouped when equal keys are adjacent.\<close>

fun grouped :: "'a list \<Rightarrow> bool" where
  "grouped [] = True"
| "grouped (k # ks) = (k \<notin> set (dropWhile (\<lambda>x. x = k) ks) \<and> grouped ks)"

text \<open>
  For the proofs about \<^verbatim>\<open>outfit_getTech\<close>: entry \<open>j\<close> of \<open>outfits\<close> is a candidate
  when it is of the current type and its name is not listed; the invariant of the
  loop over the types relates the listed names to the entries they were copied from.
\<close>

definition cand :: "Outfit list \<Rightarrow> string list \<Rightarrow> OutfitType \<Rightarrow> nat \<Rightarrow> bool" where
  "cand outfits names ty j =
     (j < length outfits \<and> type (outfits ! j) = ty \<and> the (name (outfits ! j)) \<notin> set names)"

definition getTech_inv :: "Outfit list \<Rightarrow> Outfit list \<Rightarrow> OutfitType \<Rightarrow> bool" where
  "getTech_inv outfits sel ty =
     (set sel \<subseteq> set outfits \<and> distinct (map (\<lambda>x. the (name x)) sel) \<and>
      sorted_wrt type_price_le sel \<and> (\<forall>s\<in>set sel. type s \<le> ty) \<and>
      (\<forall>s\<in>set sel. \<forall>x\<in>set outfits.
         type s = ty \<and> type x = ty \<and> the (name x) \<notin> set (map (\<lambda>x. the (name x)) sel)
           \<longrightarrow> price s \<le> price x))"

section \<open>Auxiliary facts\<close>

lemmas outfit_is_defs =
  outfit_isWeapon_def outfit_isBolt_def outfit_isBeam_def outfit_isLauncher_def
  outfit_isAmmo_def outfit_isSeeker_def outfit_isTurret_def outfit_isMod_def
  outfit_isAfterburner_def outfit_isJammer_def outfit_isMap_def

lemmas xml_example_defs = xml_element_def xml_text_def xml_leaf_def xml_isNode_def xml_get_def
  xml_getFloat_def xml_getInt_def xml_nodeProp_def example_env_def

lemmas parse_example_defs = outfit_parse_def outfit_parse_node_def parse_general_node_def
  parse_specific_def outfit_strToOutfitType_def outfit_is_defs gfx_path_def OUTFIT_GFX_def
  outfit_zero_def Let_def member_blt_def member_bem_def member_map_def member_jam_def

lemma xml_element_simps:
  "n_children (xml_element tag props kids) = kids"
  "xml_isNode (Some (xml_element tag props kids)) s \<longleftrightarrow> tag = s"
  "xml_nodeProp (xml_element tag props kids) a = map_of props a"
  by (simp_all add: xml_element_def xml_isNode_def xml_nodeProp_def)

lemma foldE_append:
  "foldE f s (xs @ ys) = (case foldE f s xs of Inl e \<Rightarrow> Inl e | Inr s' \<Rightarrow> foldE f s' ys)"
  by (induction xs arbitrary: s) (auto split: sum.splits)

text \<open>The example entries, parsed.\<close>

lemma example_jammer_parse:
  "outfit_parse example_env example_jammer =
   Inr \<lparr>name = Some ''Jammer'', type = OUTFIT_TYPE_JAMMER, max_q = 1, tech = 3, mass = 0,
        price = 900, description = Some ''Jams'', gfx_store = Some 1, properties = 0,
        u = U_jam \<lparr>jam_range = 500, jam_chance = 0.4, jam_energy = 0.2\<rparr>\<rparr>"
  by (simp add: example_jammer_def parse_example_defs outfit_parseSJammer_def
      parseSJammer_node_def zero_jam_def xml_example_defs)

lemma example_unresolvable_parse:
  "outfit_parse example_env example_unresolvable =
   Inr (outfit_zero\<lparr>name := Some ''Plasma'', price := 5, description := Some ''?'',
              gfx_store := Some 1\<rparr>)"
  by (simp add: example_unresolvable_def parse_example_defs xml_example_defs)

lemma example_map_parse:
  "outfit_parse example_env example_map =
   Inr (outfit_zero\<lparr>name := Some ''Map'', type := OUTFIT_TYPE_MAP, u := U_map \<lparr>map_radius = 3\<rparr>\<rparr>)"
  by (simp add: example_map_def parse_example_defs outfit_parseSMap_def parseSMap_node_def
      zero_map_def xml_example_defs)

lemma example_turret_beam_parse:
  "outfit_parse example_env example_turret_beam =
   Inr (outfit_zero\<lparr>name := Some ''Beam Turret'', type := OUTFIT_TYPE_TURRET_BEAM,
          u := U_bem (zero_bem\<lparr>bem_range := 300, bem_energy := 2, bem_colour := Some ''cWhite''\<rparr>)\<rparr>)"
  by (simp add: example_turret_beam_def parse_example_defs outfit_parseSBeam_def
      parseSBeam_node_def zero_bem_def xml_example_defs)

lemma example_tags:
  "xml_isNode (Some example_jammer) XML_OUTFIT_TAG"
  "xml_isNode (Some example_unresolvable) XML_OUTFIT_TAG"
  "xml_isNode (Some example_map) XML_OUTFIT_TAG"
  "\<not> xml_isNode (Some (xml_text s)) XML_OUTFIT_TAG"
  by (simp_all add: example_jammer_def example_unresolvable_def example_map_def
      XML_OUTFIT_TAG_def xml_element_def xml_text_def xml_isNode_def)

text \<open>
  The bolt entry "Laser Cannon" of the specification's example: it is a weapon and a
  bolt, with damage 12 of the kinetic type and range 1400.
\<close>

lemma example_laser_cannon_parse:
  "outfit_parse example_env example_laser_cannon =
   Inr (outfit_zero\<lparr>name := Some ''Laser Cannon'', type := OUTFIT_TYPE_BOLT,
          u := U_blt \<lparr>blt_delay = 500, blt_speed = 800, blt_range = 1400, blt_accuracy = 10,
                 blt_energy = 2, blt_dtype = DAMAGE_TYPE_KINETIC, blt_damage = 12,
                 blt_gfx_space = None, blt_sound = - 1, blt_spfx = 0\<rparr>\<rparr>)"
  by (simp add: example_laser_cannon_def parse_example_defs outfit_parseSBolt_def
      parseSBolt_node_def outfit_parseDamage_def outfit_strToDamageType_def zero_blt_def
      xml_example_defs)

lemma example_laser_cannon_accessors:
  assumes "outfit_parse example_env example_laser_cannon = Inr o'"
  shows "outfit_isWeapon o' \<and> outfit_isBolt o' \<and> outfit_damage o' = Inr 12 \<and>
         outfit_damageType o' = Inr DAMAGE_TYPE_KINETIC \<and> outfit_range o' = Inr 1400"
  using assms unfolding example_laser_cannon_parse
  by (auto simp: outfit_is_defs outfit_damage_def outfit_damageType_def outfit_range_def rd_def)

section \<open>Properties\<close>

subsection \<open>Broad types\<close>

text \<open>
  Claim C10. An outfit of type turret-bolt has the broad type "Bolt Weapon" and one of
  type turret-beam has "Beam Weapon". The broad type "Turret" (index 5 of the table)
  is returned for no outfit: every outfit that \<^verbatim>\<open>outfit_isTurret\<close> accepts is accepted
  by \<^verbatim>\<open>outfit_isBolt\<close> or \<^verbatim>\<open>outfit_isBeam\<close>, which are tested first.
\<close>

theorem outfit_getTypeBroad_turret:
  "(type o' = OUTFIT_TYPE_TURRET_BOLT \<longrightarrow> outfit_getTypeBroad o' = ''Bolt Weapon'') \<and>
   (type o' = OUTFIT_TYPE_TURRET_BEAM \<longrightarrow> outfit_getTypeBroad o' = ''Beam Weapon'') \<and>
   (outfit_isTurret o' \<longrightarrow> outfit_isBolt o' \<or> outfit_isBeam o') \<and>
   outfit_getTypeBroad_i o' \<noteq> 5 \<and>
   outfit_getTypeBroad o' \<noteq> ''Turret''"
  by (simp add: outfit_getTypeBroad_def outfit_getTypeBroad_i_def outfit_typenamebroad_def
      outfit_is_defs)

theorem outfit_getTypeBroad_turret_witness:
  "outfit_getTypeBroad (outfit_zero\<lparr>type := OUTFIT_TYPE_TURRET_BOLT\<rparr>) = ''Bolt Weapon'' \<and>
   outfit_isTurret (outfit_zero\<lparr>type := OUTFIT_TYPE_TURRET_BOLT\<rparr>) \<and>
   outfit_isBolt (outfit_zero\<lparr>type := OUTFIT_TYPE_TURRET_BOLT\<rparr>) \<and>
   outfit_getTypeBroad (outfit_zero\<lparr>type := OUTFIT_TYPE_TURRET_BEAM\<rparr>) = ''Beam Weapon''"
  using outfit_getTypeBroad_turret [of "outfit_zero\<lparr>type := OUTFIT_TYPE_TURRET_BOLT\<rparr>"]
    outfit_getTypeBroad_turret [of "outfit_zero\<lparr>type := OUTFIT_TYPE_TURRET_BEAM\<rparr>"]
  by (simp add: outfit_isTurret_def outfit_isBolt_def)

subsection \<open>The damage model\<close>

text \<open>
  Claim C3. For each of the four defined damage types \<^verbatim>\<open>outfit_calcDamage\<close> returns
  the coefficients of the table (energy: 1.1 and 0.7 times the damage, knockback 0.1;
  kinetic: 0.8 and 1.2 times, knockback 1; ion: the damage twice, knockback 0.4;
  radiation: the fixed shield damage 0.15, the damage as armour damage, knockback 0.8),
  and for every other code the three outputs are 0 and the code is reported.
\<close>

theorem outfit_calcDamage_table:
  "outfit_calcDamage DAMAGE_TYPE_ENERGY dmg = ((dmg * 1.1, dmg * 0.7, 0.1), []) \<and>
   outfit_calcDamage DAMAGE_TYPE_KINETIC dmg = ((dmg * 0.8, dmg * 1.2, 1), []) \<and>
   outfit_calcDamage DAMAGE_TYPE_ION dmg = ((dmg, dmg, 0.4), []) \<and>
   outfit_calcDamage DAMAGE_TYPE_RADIATION dmg = ((0.15, dmg, 0.8), []) \<and>
   (dtype \<noteq> DAMAGE_TYPE_ENERGY \<and> dtype \<noteq> DAMAGE_TYPE_KINETIC \<and> dtype \<noteq> DAMAGE_TYPE_ION \<and>
    dtype \<noteq> DAMAGE_TYPE_RADIATION \<longrightarrow>
      outfit_calcDamage dtype dmg = ((0, 0, 0), [WARN_unknown_damage_type dtype]))"
  by (simp add: outfit_calcDamage_def)

theorem outfit_calcDamage_table_witness:
  "outfit_calcDamage DAMAGE_TYPE_NULL 10 = ((0, 0, 0), [WARN_unknown_damage_type 0]) \<and>
   outfit_calcDamage 7 10 = ((0, 0, 0), [WARN_unknown_damage_type 7]) \<and>
   outfit_calcDamage DAMAGE_TYPE_ENERGY 10 = ((11, 7, 0.1), [])"
  using outfit_calcDamage_table [of 10 0] outfit_calcDamage_table [of 10 7]
  by simp

subsection \<open>The range of ammunition\<close>

text \<open>
  Claim C1. For an outfit of an ammo type, whose union holds the ammo member,
  \<^verbatim>\<open>outfit_range\<close> returns 0.8 times the stored speed times the stored duration; the
  speed is the one \<^verbatim>\<open>outfit_speed\<close> returns. The ammo member has no range field.
\<close>

theorem outfit_range_ammo:
  assumes "outfit_isAmmo o'" and "u_amm (u o') = Inr a"
  shows "outfit_range o' = Inr (0.8 * amm_speed a * amm_duration a) \<and>
         outfit_speed o' = Inr (amm_speed a)"
  using assms by (auto simp: outfit_range_def outfit_speed_def rd_def outfit_is_defs)

theorem outfit_range_ammo_witness:
  "outfit_range (outfit_zero\<lparr>type := OUTFIT_TYPE_MISSILE_SEEK_AMMO,
       u := U_amm (zero_amm\<lparr>amm_speed := 300, amm_duration := 5\<rparr>)\<rparr>) = Inr 1200"
  using outfit_range_ammo [of "outfit_zero\<lparr>type := OUTFIT_TYPE_MISSILE_SEEK_AMMO,
       u := U_amm (zero_amm\<lparr>amm_speed := 300, amm_duration := 5\<rparr>)\<rparr>"
       "zero_amm\<lparr>amm_speed := 300, amm_duration := 5\<rparr>"]
  by (simp add: outfit_isAmmo_def)

subsection \<open>Display names and the registry\<close>

text \<open>
  The round trip does not keep the broad type. The display names of
  \<^verbatim>\<open>outfit_getType\<close> and the strings that \<^verbatim>\<open>outfit_strToOutfitType\<close> resolves
  are two different tables. The display name of
  the bolt type, "Bolt Cannon", resolves to the null type, whose broad type is "NULL"
  and not "Bolt Weapon".
\<close>

theorem type_roundtrip_counterexample:
  "type_roundtrip (outfit_zero\<lparr>type := OUTFIT_TYPE_BOLT\<rparr>) = Inr OUTFIT_TYPE_NULL \<and>
   outfit_getTypeBroad (outfit_zero\<lparr>type := OUTFIT_TYPE_NULL\<rparr>) = ''NULL'' \<and>
   outfit_getTypeBroad (outfit_zero\<lparr>type := OUTFIT_TYPE_BOLT\<rparr>) = ''Bolt Weapon''"
  by (simp add: type_roundtrip_def outfit_getType_def outfit_typename_def
      outfit_strToOutfitType_def outfit_getTypeBroad_def outfit_getTypeBroad_i_def
      outfit_typenamebroad_def outfit_is_defs outfit_zero_def)

lemma type_code_cases:
  assumes "0 \<le> (t::int)" "t < 19"
  shows "t = 0 \<or> t = 1 \<or> t = 2 \<or> t = 3 \<or> t = 4 \<or> t = 5 \<or> t = 6 \<or> t = 7 \<or> t = 8 \<or> t = 9 \<or>
         t = 10 \<or> t = 11 \<or> t = 12 \<or> t = 13 \<or> t = 14 \<or> t = 15 \<or> t = 16 \<or> t = 17 \<or> t = 18"
  using assms by arith

text \<open>
  Claim C4, as amended. For every type code from the null type to the map type, the
  display name is resolved by the registry to the null type: no display name is a
  registry string. The broad type of the result is that of the outfit only when the
  outfit is of the null type.
\<close>

theorem type_roundtrip_null:
  assumes "0 \<le> type o'" and "type o' < OUTFIT_TYPE_SENTINEL"
  shows "type_roundtrip o' = Inr OUTFIT_TYPE_NULL \<and>
         (outfit_getTypeBroad (o'\<lparr>type := OUTFIT_TYPE_NULL\<rparr>) = outfit_getTypeBroad o'
            \<longleftrightarrow> type o' = OUTFIT_TYPE_NULL)"
  using type_code_cases [OF assms]
  by (elim disjE)
    (simp_all add: type_roundtrip_def outfit_getType_def outfit_typename_def
      outfit_strToOutfitType_def outfit_getTypeBroad_def outfit_getTypeBroad_i_def
      outfit_typenamebroad_def outfit_is_defs)

theorem type_roundtrip_null_witness:
  "type_roundtrip (outfit_zero\<lparr>type := OUTFIT_TYPE_JAMMER\<rparr>) = Inr OUTFIT_TYPE_NULL \<and>
   outfit_getTypeBroad (outfit_zero\<lparr>type := OUTFIT_TYPE_JAMMER, type := OUTFIT_TYPE_NULL\<rparr>)
     \<noteq> outfit_getTypeBroad (outfit_zero\<lparr>type := OUTFIT_TYPE_JAMMER\<rparr>)"
  using type_roundtrip_null [of "outfit_zero\<lparr>type := OUTFIT_TYPE_JAMMER\<rparr>"]
  by simp

subsection \<open>The units of a jammer\<close>

lemma parseSJammer_fold:
  "foldl (parseSJammer_node E) j kids =
     \<lparr>jam_range = doc_float E ''range'' (jam_range j) kids,
      jam_chance = doc_float E ''chance'' (jam_chance j) kids,
      jam_energy = doc_float E ''energy'' (jam_energy j) kids\<rparr>"
proof (induction kids arbitrary: j)
  case Nil
  show ?case by (simp add: doc_float_def)
next
  case (Cons n kids)
  have step: "foldl (parseSJammer_node E) (parseSJammer_node E j n) kids =
     \<lparr>jam_range = doc_float E ''range'' (jam_range (parseSJammer_node E j n)) kids,
      jam_chance = doc_float E ''chance'' (jam_chance (parseSJammer_node E j n)) kids,
      jam_energy = doc_float E ''energy'' (jam_energy (parseSJammer_node E j n)) kids\<rparr>"
    by (rule Cons.IH)
  show ?case
    unfolding foldl_Cons step
    by (simp add: doc_float_def parseSJammer_node_def xml_isNode_def)
qed

text \<open>
  Claim C9. \<^verbatim>\<open>outfit_parseSJammer\<close> stores the chance the section gives divided by
  100 and the energy it gives divided by 60, each divided once (and the range as it
  is given). A section with chance 40 and energy 12 stores 0.4 and 0.2.
\<close>

theorem outfit_parseSJammer_units:
  assumes "u_jam (u temp) = Inr j0"
  shows "outfit_parseSJammer E temp parent =
     Inr (temp\<lparr>u := U_jam
       \<lparr>jam_range = doc_float E ''range'' (jam_range j0) (n_children parent),
        jam_chance = doc_float E ''chance'' (jam_chance j0) (n_children parent) / 100,
        jam_energy = doc_float E ''energy'' (jam_energy j0) (n_children parent) / 60\<rparr>\<rparr>)"
  using assms by (simp add: outfit_parseSJammer_def member_jam_def parseSJammer_fold Let_def)

theorem outfit_parseSJammer_units_witness:
  "outfit_parseSJammer example_env (outfit_zero\<lparr>type := OUTFIT_TYPE_JAMMER\<rparr>)
     (xml_element ''specific'' [(''type'', ''jammer'')]
        [xml_leaf ''range'' ''500'', xml_leaf ''chance'' ''40'', xml_leaf ''energy'' ''12'']) =
   Inr (outfit_zero\<lparr>type := OUTFIT_TYPE_JAMMER,
          u := U_jam \<lparr>jam_range = 500, jam_chance = 0.4, jam_energy = 0.2\<rparr>\<rparr>)"
  using outfit_parseSJammer_units [of "outfit_zero\<lparr>type := OUTFIT_TYPE_JAMMER\<rparr>" zero_jam
      example_env "xml_element ''specific'' [(''type'', ''jammer'')]
        [xml_leaf ''range'' ''500'', xml_leaf ''chance'' ''40'', xml_leaf ''energy'' ''12'']"]
  by (simp add: outfit_zero_def zero_jam_def doc_float_def xml_example_defs)

subsection \<open>Structural errors of the document\<close>

lemma doc_root_first:
  assumes "doc_root (x # rest) = Some r" and "xml_isNode (Some x) s"
  shows "r = x"
  using assms by (simp add: doc_root_def xml_isNode_def)

text \<open>
  Claim C6. When the root element of the document is not "Outfits", or is empty,
  \<^verbatim>\<open>outfit_load\<close> reports an error, returns -1 and leaves the catalog as it was; the
  catalog of a process that has loaded nothing else is empty, and \<^verbatim>\<open>outfit_get\<close> on
  it returns NULL with a warning for every name.
\<close>

theorem outfit_load_structural_failure:
  assumes "doc_root nodes = Some r" and "n_name r \<noteq> XML_OUTFIT_ID \<or> n_children r = []"
  shows "\<exists>rep. rep \<noteq> [] \<and>
           (\<forall>st. outfit_load E st (Some nodes) = Inr (- 1, st, rep)) \<and>
           (\<forall>rc st' rep' nm. outfit_load E [] (Some nodes) = Inr (rc, st', rep') \<longrightarrow>
              outfit_get st' nm = Inr (None, [WARN_not_found nm]))"
proof (cases nodes)
  case Nil
  with assms(1) show ?thesis by (simp add: doc_root_def)
next
  case (Cons x rest)
  show ?thesis
  proof (cases "xml_isNode (Some x) XML_OUTFIT_ID")
    case False
    then have "\<forall>st. outfit_load E st (Some nodes) = Inr (- 1, st, [ERR_missing_root])"
      by (simp add: outfit_load_def Cons)
    then show ?thesis by (auto simp: outfit_get_def)
  next
    case True
    with assms(1) Cons have "r = x" by (auto dest: doc_root_first)
    with True assms(2) have "n_children x = []" by (auto simp: xml_isNode_def)
    with True have "\<forall>st. outfit_load E st (Some nodes) = Inr (- 1, st, [ERR_no_elements])"
      by (simp add: outfit_load_def Cons)
    then show ?thesis by (auto simp: outfit_get_def)
  qed
qed

theorem outfit_load_structural_failure_witness:
  "outfit_load example_env [] (Some [xml_element ''Ships'' [] [example_jammer]])
     = Inr (- 1, [], [ERR_missing_root]) \<and>
   outfit_load example_env [] (Some [xml_element ''Outfits'' [] []])
     = Inr (- 1, [], [ERR_no_elements]) \<and>
   outfit_get [] ''Jammer'' = Inr (None, [WARN_not_found ''Jammer''])"
  using outfit_load_structural_failure [of "[xml_element ''Ships'' [] [example_jammer]]"
      "xml_element ''Ships'' [] [example_jammer]" example_env]
    outfit_load_structural_failure [of "[xml_element ''Outfits'' [] []]"
      "xml_element ''Outfits'' [] []" example_env]
  by (simp add: doc_root_def xml_element_def XML_OUTFIT_ID_def outfit_load_def xml_isNode_def
      outfit_get_def)

subsection \<open>Lookup by name\<close>

text \<open>
  On a catalog in which every entry has a name, \<^verbatim>\<open>outfit_get\<close> returns the first
  entry of the given name, or NULL with a warning when there is none.
\<close>

lemma outfit_get_from_named:
  assumes "\<forall>x\<in>set st. name x \<noteq> None"
  shows "(\<exists>i<length st. outfit_get_from st k nm = Inr (Some (k + i), []) \<and>
            name (st ! i) = Some nm \<and> (\<forall>j<i. name (st ! j) \<noteq> Some nm)) \<or>
         (outfit_get_from st k nm = Inr (None, [WARN_not_found nm]) \<and>
            (\<forall>x\<in>set st. name x \<noteq> Some nm))"
  using assms
proof (induction st arbitrary: k)
  case Nil
  show ?case by simp
next
  case (Cons x st)
  from Cons.prems obtain s where s: "name x = Some s" by auto
  show ?case
  proof (cases "nm = s")
    case True
    with s show ?thesis by auto
  next
    case False
    from Cons.prems have "\<forall>x\<in>set st. name x \<noteq> None" by simp
    from Cons.IH [OF this, of "Suc k"] show ?thesis
    proof (elim disjE exE conjE)
      fix i assume i: "i < length st"
        "outfit_get_from st (Suc k) nm = Inr (Some (Suc k + i), [])"
        "name (st ! i) = Some nm" "\<forall>j<i. name (st ! j) \<noteq> Some nm"
      have "\<forall>j<Suc i. name ((x # st) ! j) \<noteq> Some nm"
        using i(4) s False by (auto simp: less_Suc_eq_0_disj)
      with i s False have "Suc i < length (x # st) \<and>
          outfit_get_from (x # st) k nm = Inr (Some (k + Suc i), []) \<and>
          name ((x # st) ! Suc i) = Some nm \<and> (\<forall>j<Suc i. name ((x # st) ! j) \<noteq> Some nm)"
        by simp
      then show ?thesis by blast
    next
      assume "outfit_get_from st (Suc k) nm = Inr (None, [WARN_not_found nm])"
        "\<forall>x\<in>set st. name x \<noteq> Some nm"
      with s False show ?thesis by simp
    qed
  qed
qed

lemma outfit_get_named:
  assumes "\<forall>x\<in>set st. name x \<noteq> None"
  shows "(\<exists>i<length st. outfit_get st nm = Inr (Some i, []) \<and>
            name (st ! i) = Some nm \<and> (\<forall>j<i. name (st ! j) \<noteq> Some nm)) \<or>
         (outfit_get st nm = Inr (None, [WARN_not_found nm]) \<and>
            (\<forall>x\<in>set st. name x \<noteq> Some nm))"
  using outfit_get_from_named [OF assms, of 0 nm] by (simp add: outfit_get_def)

text \<open>
  Claim C7. The claim is for every catalog, and \<^verbatim>\<open>outfit_load\<close> keeps an entry whose
  element has no \<^verbatim>\<open>name\<close> attribute, with a NULL name. On the catalog loaded from a
  document with such an entry followed by the entry "Map", the lookup of "Map" does
  not return the second entry: the scan hands the NULL name of the first to
  \<^verbatim>\<open>strcmp\<close>.
\<close>

theorem outfit_get_nameless_entry:
  "outfit_load example_env []
     (Some [xml_element ''Outfits'' [] [example_nameless, example_map]]) =
     Inr (0, [outfit_zero\<lparr>price := 5\<rparr>,
              outfit_zero\<lparr>name := Some ''Map'', type := OUTFIT_TYPE_MAP,
                u := U_map \<lparr>map_radius = 3\<rparr>\<rparr>], []) \<and>
   outfit_get [outfit_zero\<lparr>price := 5\<rparr>,
               outfit_zero\<lparr>name := Some ''Map'', type := OUTFIT_TYPE_MAP,
                 u := U_map \<lparr>map_radius = 3\<rparr>\<rparr>] ''Map'' = Inl NullDeref"
proof -
  have "outfit_parse example_env example_nameless = Inr (outfit_zero\<lparr>price := 5\<rparr>)"
    by (simp add: example_nameless_def parse_example_defs xml_example_defs)
  moreover have "xml_isNode (Some example_nameless) XML_OUTFIT_TAG"
    by (simp add: example_nameless_def XML_OUTFIT_TAG_def xml_element_def xml_isNode_def)
  ultimately have "outfit_load example_env []
     (Some [xml_element ''Outfits'' [] [example_nameless, example_map]]) =
     Inr (0, [outfit_zero\<lparr>price := 5\<rparr>,
              outfit_zero\<lparr>name := Some ''Map'', type := OUTFIT_TYPE_MAP,
                u := U_map \<lparr>map_radius = 3\<rparr>\<rparr>], [])"
    by (simp add: outfit_load_def load_node_def example_tags example_map_parse
        XML_OUTFIT_ID_def xml_element_simps)
  moreover have "outfit_get [outfit_zero\<lparr>price := 5\<rparr>,
               outfit_zero\<lparr>name := Some ''Map'', type := OUTFIT_TYPE_MAP,
                 u := U_map \<lparr>map_radius = 3\<rparr>\<rparr>] ''Map'' = Inl NullDeref"
    by (simp add: outfit_get_def outfit_zero_def)
  ultimately show ?thesis by (rule conjI)
qed

subsection \<open>The accessors and the union\<close>

text \<open>
  For a type that is no bolt, beam, ammo or launcher type every accessor returns its
  sentinel.
\<close>

lemma accessors_sentinel:
  assumes "\<not> outfit_isBolt o'" "\<not> outfit_isBeam o'" "\<not> outfit_isAmmo o'" "\<not> outfit_isLauncher o'"
  shows "outfit_gfx o' = Inr None \<and> outfit_spfx o' = Inr (- 1) \<and> outfit_damage o' = Inr (- 1) \<and>
         outfit_damageType o' = Inr DAMAGE_TYPE_NULL \<and> outfit_delay o' = Inr (- 1) \<and>
         outfit_energy o' = Inr (- 1) \<and> outfit_range o' = Inr (- 1) \<and> outfit_speed o' = Inr (- 1)"
  using assms
  by (simp add: outfit_gfx_def outfit_spfx_def outfit_damage_def outfit_damageType_def
      outfit_delay_def outfit_energy_def outfit_range_def outfit_speed_def outfit_is_defs)

text \<open>
  A turret-beam outfit holds the beam member, and the graphic, effect and speed
  accessors, which have no beam branch, reach their turret branch and read the bolt
  member.
\<close>

lemma turret_beam_reads_bolt:
  assumes "type o' = OUTFIT_TYPE_TURRET_BEAM" and "u o' = U_bem b"
  shows "outfit_gfx o' = Inl UnionMismatch \<and> outfit_spfx o' = Inl UnionMismatch \<and>
         outfit_speed o' = Inl UnionMismatch"
  using assms
  by (simp add: outfit_gfx_def outfit_spfx_def outfit_speed_def outfit_is_defs rd_def)

text \<open>
  Claim C8. The claim fails for the turret-beam type: a beam has no graphic, no
  particle effect and no speed, and for a plain beam the three accessors return the
  sentinel, but for the turret beam that \<^verbatim>\<open>outfit_parse\<close> builds from a
  \<^verbatim>\<open>turret beam\<close> section they read \<^verbatim>\<open>u.blt\<close> while \<^verbatim>\<open>u.bem\<close> is what is stored.
\<close>

theorem accessors_turret_beam:
  "outfit_parse example_env example_turret_beam =
     Inr (outfit_zero\<lparr>name := Some ''Beam Turret'', type := OUTFIT_TYPE_TURRET_BEAM,
        u := U_bem (zero_bem\<lparr>bem_range := 300, bem_energy := 2, bem_colour := Some ''cWhite''\<rparr>)\<rparr>) \<and>
   outfit_gfx (outfit_zero\<lparr>name := Some ''Beam Turret'', type := OUTFIT_TYPE_TURRET_BEAM,
        u := U_bem (zero_bem\<lparr>bem_range := 300, bem_energy := 2, bem_colour := Some ''cWhite''\<rparr>)\<rparr>)
     = Inl UnionMismatch \<and>
   outfit_spfx (outfit_zero\<lparr>name := Some ''Beam Turret'', type := OUTFIT_TYPE_TURRET_BEAM,
        u := U_bem (zero_bem\<lparr>bem_range := 300, bem_energy := 2, bem_colour := Some ''cWhite''\<rparr>)\<rparr>)
     = Inl UnionMismatch \<and>
   outfit_speed (outfit_zero\<lparr>name := Some ''Beam Turret'', type := OUTFIT_TYPE_TURRET_BEAM,
        u := U_bem (zero_bem\<lparr>bem_range := 300, bem_energy := 2, bem_colour := Some ''cWhite''\<rparr>)\<rparr>)
     = Inl UnionMismatch \<and>
   outfit_gfx (outfit_zero\<lparr>type := OUTFIT_TYPE_BEAM, u := U_bem zero_bem\<rparr>) = Inr None \<and>
   outfit_spfx (outfit_zero\<lparr>type := OUTFIT_TYPE_BEAM, u := U_bem zero_bem\<rparr>) = Inr (- 1) \<and>
   outfit_speed (outfit_zero\<lparr>type := OUTFIT_TYPE_BEAM, u := U_bem zero_bem\<rparr>) = Inr (- 1)"
  by (simp add: example_turret_beam_parse)
    (simp add: outfit_gfx_def outfit_spfx_def outfit_speed_def rd_def outfit_is_defs)

subsection \<open>An entry with an unresolvable type\<close>

text \<open>
  A well-formed \<^verbatim>\<open>general\<close> section is parsed without a fault and changes neither
  the name nor the type; a node that is no section changes nothing.
\<close>

lemma parse_general_node_ok:
  assumes "general_child_ok E cur"
  shows "\<exists>temp'. parse_general_node E temp cur = Inr temp' \<and> type temp' = type temp \<and>
           name temp' = name temp"
  using assms
  by (auto simp: parse_general_node_def general_child_ok_def gfx_path_def
      split: option.splits if_splits)

lemma parse_general_fold_ok:
  assumes "list_all (general_child_ok E) kids"
  shows "\<exists>temp'. foldE (parse_general_node E) temp kids = Inr temp' \<and> type temp' = type temp \<and>
           name temp' = name temp"
  using assms
proof (induction kids arbitrary: temp)
  case Nil
  show ?case by simp
next
  case (Cons k kids)
  then have k: "general_child_ok E k" and ks: "list_all (general_child_ok E) kids"
    by simp_all
  from parse_general_node_ok [OF k, of temp] obtain t1 where
    t1: "parse_general_node E temp k = Inr t1" "type t1 = type temp" "name t1 = name temp"
    by blast
  from Cons.IH [OF ks, of t1] obtain t2 where
    t2: "foldE (parse_general_node E) t1 kids = Inr t2" "type t2 = type t1" "name t2 = name t1"
    by blast
  from t1 t2 show ?case by simp
qed

lemma outfit_parse_node_ok:
  assumes "\<not> xml_isNode (Some node) ''specific''"
    and "xml_isNode (Some node) ''general'' \<longrightarrow> general_ok E node"
  shows "\<exists>temp'. outfit_parse_node E temp node = Inr temp' \<and> type temp' = type temp \<and>
           name temp' = name temp"
proof (cases "xml_isNode (Some node) ''general''")
  case True
  with assms(2) have "list_all (general_child_ok E) (n_children node)"
    by (simp add: general_ok_def)
  from parse_general_fold_ok [OF this, of temp] True show ?thesis
    by (simp add: outfit_parse_node_def)
next
  case False
  with assms(1) show ?thesis by (simp add: outfit_parse_node_def)
qed

lemma outfit_parse_fold_ok:
  assumes "\<forall>n\<in>set kids. \<not> xml_isNode (Some n) ''specific'' \<and>
             (xml_isNode (Some n) ''general'' \<longrightarrow> general_ok E n)"
  shows "\<exists>temp'. foldE (outfit_parse_node E) temp kids = Inr temp' \<and> type temp' = type temp \<and>
           name temp' = name temp"
  using assms
proof (induction kids arbitrary: temp)
  case Nil
  show ?case by simp
next
  case (Cons k kids)
  then have k: "\<not> xml_isNode (Some k) ''specific''"
      "xml_isNode (Some k) ''general'' \<longrightarrow> general_ok E k"
    and ks: "\<forall>n\<in>set kids. \<not> xml_isNode (Some n) ''specific'' \<and>
             (xml_isNode (Some n) ''general'' \<longrightarrow> general_ok E n)"
    by simp_all
  from outfit_parse_node_ok [OF k, of temp] obtain t1 where
    t1: "outfit_parse_node E temp k = Inr t1" "type t1 = type temp" "name t1 = name temp"
    by blast
  from Cons.IH [OF ks, of t1] obtain t2 where
    t2: "foldE (outfit_parse_node E) t1 kids = Inr t2" "type t2 = type t1" "name t2 = name t1"
    by blast
  from t1 t2 show ?case by simp
qed

text \<open>
  A \<^verbatim>\<open>specific\<close> section whose type string the registry does not resolve sets the
  type to NULL, runs no variant parser and returns.
\<close>

lemma parse_specific_unresolvable:
  assumes "outfit_strToOutfitType (xml_nodeProp node ''type'') = Inr OUTFIT_TYPE_NULL"
  shows "\<exists>temp'. parse_specific E temp node = Inr temp' \<and> type temp' = OUTFIT_TYPE_NULL \<and>
           name temp' = name temp \<and> u temp' = u temp"
  using assms
  by (simp add: parse_specific_def Let_def outfit_setProp_def split: option.splits)

text \<open>
  So the entry is parsed without a fault: its record has the name of the entry and
  the null type.
\<close>

lemma outfit_parse_unresolvable_type:
  assumes kids: "n_children entry = gs @ spec # gs'"
    and spec: "xml_isNode (Some spec) ''specific''"
    and ty: "outfit_strToOutfitType (xml_nodeProp spec ''type'') = Inr OUTFIT_TYPE_NULL"
    and sections: "\<forall>n\<in>set (gs @ gs'). \<not> xml_isNode (Some n) ''specific'' \<and>
                     (xml_isNode (Some n) ''general'' \<longrightarrow> general_ok E n)"
  shows "\<exists>ob. outfit_parse E entry = Inr ob \<and> type ob = OUTFIT_TYPE_NULL \<and>
           name ob = xml_nodeProp entry ''name''"
proof -
  let ?t0 = "outfit_zero\<lparr>name := xml_nodeProp entry ''name''\<rparr>"
  from sections have gs: "\<forall>n\<in>set gs. \<not> xml_isNode (Some n) ''specific'' \<and>
                     (xml_isNode (Some n) ''general'' \<longrightarrow> general_ok E n)"
    and gs': "\<forall>n\<in>set gs'. \<not> xml_isNode (Some n) ''specific'' \<and>
                     (xml_isNode (Some n) ''general'' \<longrightarrow> general_ok E n)"
    by simp_all
  from outfit_parse_fold_ok [OF gs, of ?t0] obtain t1 where
    t1: "foldE (outfit_parse_node E) ?t0 gs = Inr t1" "name t1 = name ?t0"
    by blast
  from spec have "\<not> xml_isNode (Some spec) ''general''"
    by (auto simp: xml_isNode_def)
  with spec have node: "outfit_parse_node E t1 spec = parse_specific E t1 spec"
    by (simp add: outfit_parse_node_def)
  from parse_specific_unresolvable [OF ty, of E t1] obtain t2 where
    t2: "parse_specific E t1 spec = Inr t2" "type t2 = OUTFIT_TYPE_NULL" "name t2 = name t1"
    by blast
  from outfit_parse_fold_ok [OF gs', of t2] obtain ob where
    ob: "foldE (outfit_parse_node E) t2 gs' = Inr ob" "type ob = type t2" "name ob = name t2"
    by blast
  have "outfit_parse E entry = Inr ob"
    using t1(1) node t2(1) ob(1) by (simp add: outfit_parse_def kids foldE_append)
  moreover have "type ob = OUTFIT_TYPE_NULL" using ob(2) t2(2) by simp
  moreover have "name ob = xml_nodeProp entry ''name''" using ob(3) t2(3) t1(2) by simp
  ultimately show ?thesis by blast
qed

lemma load_fold:
  assumes "\<forall>n\<in>set kids. xml_isNode (Some n) XML_OUTFIT_TAG \<longrightarrow> (\<exists>x. outfit_parse E n = Inr x)"
  shows "foldE (load_node E) st kids =
     Inr (st @ map (\<lambda>n. projr (outfit_parse E n))
                 (filter (\<lambda>n. xml_isNode (Some n) XML_OUTFIT_TAG) kids))"
  using assms
proof (induction kids arbitrary: st)
  case Nil
  show ?case by simp
next
  case (Cons k kids)
  from Cons.prems have rest:
    "\<forall>n\<in>set kids. xml_isNode (Some n) XML_OUTFIT_TAG \<longrightarrow> (\<exists>x. outfit_parse E n = Inr x)"
    by simp
  show ?case
  proof (cases "xml_isNode (Some k) XML_OUTFIT_TAG")
    case True
    with Cons.prems obtain x where x: "outfit_parse E k = Inr x" by auto
    with True have "load_node E st k = Inr (st @ [x])" by (simp add: load_node_def)
    with Cons.IH [OF rest, of "st @ [x]"] True x show ?thesis by simp
  next
    case False
    then have "load_node E st k = Inr st" by (simp add: load_node_def)
    with Cons.IH [OF rest, of st] False show ?thesis by simp
  qed
qed

text \<open>
  Claim C5. Let the root "Outfits" hold an outfit entry with one \<^verbatim>\<open>specific\<close> section,
  whose type string the registry does not resolve, and with well-formed \<^verbatim>\<open>general\<close>
  sections, and let every other outfit entry be well formed, that is, parsed without
  a fault. Then the malformed entry is parsed without a fault too, to a record with
  the name of the entry and the null type, and \<^verbatim>\<open>outfit_load\<close> returns 0 and appends
  to the catalog, in the order of the document, the record of every entry: those of
  the other entries and, in its place between them, the record of the malformed one.
\<close>

theorem outfit_load_unresolvable_type:
  assumes root: "xml_isNode (Some rt) XML_OUTFIT_ID"
    and entries: "n_children rt = pre @ bad # post"
    and others: "\<forall>n\<in>set (pre @ post). xml_isNode (Some n) XML_OUTFIT_TAG \<longrightarrow>
                   (\<exists>x. outfit_parse E n = Inr x)"
    and bad: "xml_isNode (Some bad) XML_OUTFIT_TAG"
    and kids: "n_children bad = gs @ spec # gs'"
    and spec: "xml_isNode (Some spec) ''specific''"
    and ty: "outfit_strToOutfitType (xml_nodeProp spec ''type'') = Inr OUTFIT_TYPE_NULL"
    and sections: "\<forall>n\<in>set (gs @ gs'). \<not> xml_isNode (Some n) ''specific'' \<and>
                     (xml_isNode (Some n) ''general'' \<longrightarrow> general_ok E n)"
  shows "\<exists>ob. outfit_parse E bad = Inr ob \<and> type ob = OUTFIT_TYPE_NULL \<and>
           name ob = xml_nodeProp bad ''name'' \<and>
           outfit_load E st (Some (rt # rest)) =
             Inr (0, st @ map (\<lambda>n. projr (outfit_parse E n))
                           (filter (\<lambda>n. xml_isNode (Some n) XML_OUTFIT_TAG) pre)
                      @ ob # map (\<lambda>n. projr (outfit_parse E n))
                           (filter (\<lambda>n. xml_isNode (Some n) XML_OUTFIT_TAG) post), [])"
proof -
  from outfit_parse_unresolvable_type [OF kids spec ty sections] obtain ob where
    ok: "outfit_parse E bad = Inr ob" and tn: "type ob = OUTFIT_TYPE_NULL"
      "name ob = xml_nodeProp bad ''name''"
    by blast
  have all: "\<forall>n\<in>set (pre @ bad # post). xml_isNode (Some n) XML_OUTFIT_TAG \<longrightarrow>
               (\<exists>x. outfit_parse E n = Inr x)"
    using others ok by auto
  have "foldE (load_node E) st (n_children rt) =
     Inr (st @ map (\<lambda>n. projr (outfit_parse E n))
                 (filter (\<lambda>n. xml_isNode (Some n) XML_OUTFIT_TAG) (pre @ bad # post)))"
    unfolding entries by (rule load_fold [OF all])
  with bad ok have fold: "foldE (load_node E) st (n_children rt) =
     Inr (st @ map (\<lambda>n. projr (outfit_parse E n))
                         (filter (\<lambda>n. xml_isNode (Some n) XML_OUTFIT_TAG) pre)
             @ ob # map (\<lambda>n. projr (outfit_parse E n))
                         (filter (\<lambda>n. xml_isNode (Some n) XML_OUTFIT_TAG) post))"
    by (simp add: entries)
  obtain k ks where k: "n_children rt = k # ks"
    using entries by (cases pre) auto
  have "outfit_load E st (Some (rt # rest)) =
     (case foldE (load_node E) st (n_children rt) of
        Inl e \<Rightarrow> Inl e | Inr st' \<Rightarrow> Inr (0, st', []))"
    using root by (simp add: outfit_load_def k)
  with fold have "outfit_load E st (Some (rt # rest)) =
           Inr (0, st @ map (\<lambda>n. projr (outfit_parse E n))
                         (filter (\<lambda>n. xml_isNode (Some n) XML_OUTFIT_TAG) pre)
                    @ ob # map (\<lambda>n. projr (outfit_parse E n))
                         (filter (\<lambda>n. xml_isNode (Some n) XML_OUTFIT_TAG) post), [])"
    by simp
  with ok tn show ?thesis by blast
qed

theorem outfit_load_unresolvable_type_witness:
  "outfit_parse example_env example_unresolvable =
     Inr (outfit_zero\<lparr>name := Some ''Plasma'', price := 5, description := Some ''?'',
              gfx_store := Some 1\<rparr>) \<and>
   type (outfit_zero\<lparr>name := Some ''Plasma'', price := 5, description := Some ''?'',
              gfx_store := Some 1\<rparr>) = OUTFIT_TYPE_NULL \<and>
   outfit_load example_env []
     (Some [xml_element ''Outfits'' []
        [xml_text '' '', example_jammer, example_unresolvable, example_map]]) =
   Inr (0, [\<lparr>name = Some ''Jammer'', type = OUTFIT_TYPE_JAMMER, max_q = 1, tech = 3, mass = 0,
             price = 900, description = Some ''Jams'', gfx_store = Some 1, properties = 0,
             u = U_jam \<lparr>jam_range = 500, jam_chance = 0.4, jam_energy = 0.2\<rparr>\<rparr>,
            outfit_zero\<lparr>name := Some ''Plasma'', price := 5, description := Some ''?'',
              gfx_store := Some 1\<rparr>,
            outfit_zero\<lparr>name := Some ''Map'', type := OUTFIT_TYPE_MAP,
              u := U_map \<lparr>map_radius = 3\<rparr>\<rparr>], [])"
proof -
  let ?rt = "xml_element ''Outfits'' []
        [xml_text '' '', example_jammer, example_unresolvable, example_map]"
  let ?gen = "xml_element ''general'' []
        [xml_leaf ''price'' ''5'', xml_leaf ''description'' ''?'', xml_leaf ''gfx_store'' ''plasma'']"
  let ?spec = "xml_element ''specific'' [(''type'', ''plasma'')] [xml_leaf ''range'' ''7'']"
  have 1: "xml_isNode (Some ?rt) XML_OUTFIT_ID"
    by (simp add: xml_element_simps XML_OUTFIT_ID_def)
  have 2: "n_children ?rt = [xml_text '' '', example_jammer] @ example_unresolvable # [example_map]"
    by (simp add: xml_element_simps)
  have 3: "\<forall>n\<in>set ([xml_text '' '', example_jammer] @ [example_map]).
             xml_isNode (Some n) XML_OUTFIT_TAG \<longrightarrow> (\<exists>x. outfit_parse example_env n = Inr x)"
    by (simp add: example_tags example_jammer_parse example_map_parse)
  have 5: "n_children example_unresolvable = [xml_text '' '', ?gen] @ ?spec # [xml_text '' '']"
    by (simp add: example_unresolvable_def xml_element_simps)
  have 6: "xml_isNode (Some ?spec) ''specific''"
    by (simp add: xml_element_simps)
  have 7: "outfit_strToOutfitType (xml_nodeProp ?spec ''type'') = Inr OUTFIT_TYPE_NULL"
    by (simp add: outfit_strToOutfitType_def xml_element_simps)
  have 8: "\<forall>n\<in>set ([xml_text '' '', ?gen] @ [xml_text '' '']).
             \<not> xml_isNode (Some n) ''specific'' \<and>
             (xml_isNode (Some n) ''general'' \<longrightarrow> general_ok example_env n)"
    by (simp add: general_ok_def general_child_ok_def OUTFIT_GFX_def xml_example_defs)
  from outfit_load_unresolvable_type [OF 1 2 3 example_tags(2) 5 6 7 8, of "[]" "[]"]
  show ?thesis
    by (simp add: example_tags example_jammer_parse example_map_parse
        example_unresolvable_parse)
qed

subsection \<open>The order of a listing\<close>

text \<open>The first loop: with distinct technologies an entry is listed at most once.\<close>

lemma getTech_special_none:
  assumes "\<forall>j\<in>set js. techs ! j \<noteq> tech x"
  shows "foldE (getTech_special techs n x) acc js = Inr acc"
  using assms by (induction js) (simp_all add: getTech_special_def)

lemma getTech_special_fold:
  assumes "distinct (map ((!) techs) js)" and "length acc < n"
  shows "foldE (getTech_special techs n x) acc js = Inr acc \<or>
         foldE (getTech_special techs n x) acc js = Inr (acc @ [x])"
  using assms
proof (induction js)
  case Nil
  show ?case by simp
next
  case (Cons j js)
  show ?case
  proof (cases "techs ! j = tech x")
    case True
    with Cons.prems(1) have "tech x \<notin> (!) techs ` set js" by simp
    then have "\<forall>i\<in>set js. techs ! i \<noteq> tech x" by force
    then have rest: "foldE (getTech_special techs n x) (acc @ [x]) js = Inr (acc @ [x])"
      by (rule getTech_special_none)
    have step: "getTech_special techs n x acc j = Inr (acc @ [x])"
      using True Cons.prems(2) by (simp add: getTech_special_def getTech_push_def)
    from step rest show ?thesis by simp
  next
    case False
    then have step: "getTech_special techs n x acc j = Inr acc"
      by (simp add: getTech_special_def)
    from Cons.IH Cons.prems step show ?thesis by simp
  qed
qed

lemma getTech_entry_result:
  assumes "techs \<noteq> []" and "distinct techs" and "length acc < n"
  shows "getTech_entry techs n acc x = Inr acc \<or> getTech_entry techs n acc x = Inr (acc @ [x])"
proof -
  from assms(1) obtain t0 ts where ts: "techs = t0 # ts" by (cases techs) auto
  have "distinct (map ((!) techs) [0..<length techs])"
    using assms(2) by (simp add: map_nth)
  from getTech_special_fold [OF this assms(3), of x]
  show ?thesis
    using assms(3) unfolding getTech_entry_def ts
    by (auto simp: getTech_push_def)
qed

lemma getTech_entry_fold:
  assumes "techs \<noteq> []" and "distinct techs" and "length acc + length xs \<le> n"
  shows "\<exists>r. foldE (getTech_entry techs n) acc xs = Inr r \<and> set r \<subseteq> set acc \<union> set xs"
  using assms(3)
proof (induction xs arbitrary: acc)
  case Nil
  show ?case by simp
next
  case (Cons x xs)
  from Cons.prems have lt: "length acc < n" by simp
  from getTech_entry_result [OF assms(1,2) lt, of x] show ?case
  proof
    assume e: "getTech_entry techs n acc x = Inr acc"
    from Cons.prems have "length acc + length xs \<le> n" by simp
    from Cons.IH [OF this] e show ?thesis by auto
  next
    assume e: "getTech_entry techs n acc x = Inr (acc @ [x])"
    from Cons.prems have "length (acc @ [x]) + length xs \<le> n" by simp
    from Cons.IH [OF this] e show ?thesis by auto
  qed
qed

lemma getTech_avail_result:
  assumes "techs \<noteq> []" and "distinct techs"
  shows "\<exists>outfits. getTech_avail techs outfit_stack = Inr outfits \<and> set outfits \<subseteq> set outfit_stack"
  using getTech_entry_fold [OF assms, of "[]" outfit_stack "length outfit_stack"]
  by (simp add: getTech_avail_def)

text \<open>The name test and the scan for the cheapest candidate.\<close>

lemma getTech_find_named:
  "\<exists>r. getTech_find names (Some t) k = Inr r \<and> r \<le> k + length names \<and>
        (r = k + length names \<longleftrightarrow> t \<notin> set names)"
proof (induction names arbitrary: k)
  case Nil
  show ?case by simp
next
  case (Cons s names)
  show ?case
  proof (cases "s = t")
    case True
    then show ?thesis by simp
  next
    case False
    from Cons.IH [of "Suc k"] False show ?thesis by auto
  qed
qed

lemma getTech_cheapest_result:
  assumes named: "\<forall>x\<in>set outfits. name x \<noteq> None"
    and js: "\<forall>j\<in>set js. j < length outfits"
    and pr: "\<forall>q. pr = Some q \<longrightarrow> cand outfits names ty q"
  shows "\<exists>r. getTech_cheapest outfits names ty js pr = Inr r \<and>
           (r = None \<longleftrightarrow> pr = None \<and> (\<forall>j\<in>set js. \<not> cand outfits names ty j)) \<and>
           (\<forall>p. r = Some p \<longrightarrow> cand outfits names ty p \<and>
              (\<forall>j\<in>set js. cand outfits names ty j \<longrightarrow> price (outfits ! p) \<le> price (outfits ! j)) \<and>
              (\<forall>q. pr = Some q \<longrightarrow> price (outfits ! p) \<le> price (outfits ! q)))"
  using js pr
proof (induction js arbitrary: pr)
  case Nil
  then show ?case by auto
next
  case (Cons j js)
  from Cons.prems(1) have jlt: "j < length outfits" and js: "\<forall>j\<in>set js. j < length outfits"
    by simp_all
  from jlt named obtain t where t: "name (outfits ! j) = Some t" by fastforce
  from getTech_find_named [of names t 0] obtain k where
    k: "getTech_find names (Some t) 0 = Inr k" "k = length names \<longleftrightarrow> t \<notin> set names"
    by auto
  let ?better = "(case pr of None \<Rightarrow> True | Some p \<Rightarrow> price (outfits ! p) > price (outfits ! j))"
  show ?case
  proof (cases "type (outfits ! j) = ty \<and> ?better \<and> t \<notin> set names")
    case True
    then have cj: "cand outfits names ty j" using jlt t by (simp add: cand_def)
    have step: "getTech_cheapest outfits names ty (j # js) pr =
                getTech_cheapest outfits names ty js (Some j)"
      using True t k by simp
    have "\<forall>q. Some j = Some q \<longrightarrow> cand outfits names ty q" using cj by simp
    from Cons.IH [OF js this] obtain r where
      r: "getTech_cheapest outfits names ty js (Some j) = Inr r"
         "r = None \<longleftrightarrow> Some j = None \<and> (\<forall>j\<in>set js. \<not> cand outfits names ty j)"
         "\<forall>p. r = Some p \<longrightarrow> cand outfits names ty p \<and>
              (\<forall>i\<in>set js. cand outfits names ty i \<longrightarrow> price (outfits ! p) \<le> price (outfits ! i)) \<and>
              (\<forall>q. Some j = Some q \<longrightarrow> price (outfits ! p) \<le> price (outfits ! q))"
      by blast
    from r(2) obtain p where p: "r = Some p" by (cases r) auto
    with r(3) have pp: "cand outfits names ty p"
      "\<forall>i\<in>set js. cand outfits names ty i \<longrightarrow> price (outfits ! p) \<le> price (outfits ! i)"
      "price (outfits ! p) \<le> price (outfits ! j)"
      by auto
    have prq: "\<forall>q. pr = Some q \<longrightarrow> price (outfits ! p) \<le> price (outfits ! q)"
      using True pp(3) by (auto split: option.splits)
    have res: "getTech_cheapest outfits names ty (j # js) pr = Inr (Some p)"
      by (simp only: step r(1) p)
    show ?thesis
    proof (intro exI conjI)
      show "getTech_cheapest outfits names ty (j # js) pr = Inr (Some p)" by (fact res)
      show "Some p = None \<longleftrightarrow> pr = None \<and> (\<forall>j\<in>set (j # js). \<not> cand outfits names ty j)"
        using cj by simp
      show "\<forall>p'. Some p = Some p' \<longrightarrow> cand outfits names ty p' \<and>
              (\<forall>i\<in>set (j # js). cand outfits names ty i \<longrightarrow>
                 price (outfits ! p') \<le> price (outfits ! i)) \<and>
              (\<forall>q. pr = Some q \<longrightarrow> price (outfits ! p') \<le> price (outfits ! q))"
        using pp prq by simp
    qed
  next
    case False
    have step: "getTech_cheapest outfits names ty (j # js) pr =
                getTech_cheapest outfits names ty js pr"
      using False t k by (auto split: option.splits)
    from Cons.IH [OF js Cons.prems(2)] obtain r where
      r: "getTech_cheapest outfits names ty js pr = Inr r"
         "r = None \<longleftrightarrow> pr = None \<and> (\<forall>j\<in>set js. \<not> cand outfits names ty j)"
         "\<forall>p. r = Some p \<longrightarrow> cand outfits names ty p \<and>
              (\<forall>i\<in>set js. cand outfits names ty i \<longrightarrow> price (outfits ! p) \<le> price (outfits ! i)) \<and>
              (\<forall>q. pr = Some q \<longrightarrow> price (outfits ! p) \<le> price (outfits ! q))"
      by blast
    have notc: "cand outfits names ty j \<Longrightarrow> \<exists>q. pr = Some q \<and> price (outfits ! q) \<le> price (outfits ! j)"
      using False t by (auto simp: cand_def split: option.splits)
    have a: "r = None \<longleftrightarrow> pr = None \<and> (\<forall>i\<in>set (j # js). \<not> cand outfits names ty i)"
      using r(2) notc by auto
    have b: "\<forall>p. r = Some p \<longrightarrow> cand outfits names ty p \<and>
              (\<forall>i\<in>set (j # js). cand outfits names ty i \<longrightarrow> price (outfits ! p) \<le> price (outfits ! i)) \<and>
              (\<forall>q. pr = Some q \<longrightarrow> price (outfits ! p) \<le> price (outfits ! q))"
      using r(3) notc by fastforce
    have res: "getTech_cheapest outfits names ty (j # js) pr = Inr r"
      by (simp only: step r(1))
    from res a b show ?thesis by blast
  qed
qed

text \<open>The loop over the types keeps the invariant.\<close>

lemma names_room:
  assumes "distinct names" and "set names \<subseteq> f ` set outfits" and "s \<in> f ` set outfits"
    and "s \<notin> set names"
  shows "length names < length outfits"
proof -
  have "insert s (set names) \<subseteq> f ` set outfits" using assms(2,3) by simp
  then have "card (insert s (set names)) \<le> card (f ` set outfits)"
    by (intro card_mono) simp_all
  also have "\<dots> \<le> card (set outfits)" by (rule card_image_le) simp
  also have "\<dots> \<le> length outfits" by (rule card_length)
  finally have "card (insert s (set names)) \<le> length outfits" .
  moreover have "card (insert s (set names)) = Suc (length names)"
    using assms(1,4) by (simp add: distinct_card)
  ultimately show ?thesis by simp
qed

lemma getTech_inv_next:
  assumes "getTech_inv outfits sel ty"
  shows "getTech_inv outfits sel (ty + 1)"
  using assms unfolding getTech_inv_def by fastforce

lemma getTech_inv_add:
  assumes inv: "getTech_inv outfits sel ty"
    and c: "cand outfits (map (\<lambda>x. the (name x)) sel) ty p"
    and least: "\<forall>j<length outfits. cand outfits (map (\<lambda>x. the (name x)) sel) ty j \<longrightarrow>
                  price (outfits ! p) \<le> price (outfits ! j)"
  shows "getTech_inv outfits (sel @ [outfits ! p]) ty"
proof -
  let ?nm = "\<lambda>x. the (name x)"
  let ?x = "outfits ! p"
  from c have p: "p < length outfits" "type ?x = ty" "?nm ?x \<notin> set (map ?nm sel)"
    by (simp_all add: cand_def)
  from inv have sub: "set sel \<subseteq> set outfits" and dis: "distinct (map ?nm sel)"
    and srt: "sorted_wrt type_price_le sel" and le: "\<forall>s\<in>set sel. type s \<le> ty"
    and low: "\<forall>s\<in>set sel. \<forall>x\<in>set outfits.
         type s = ty \<and> type x = ty \<and> ?nm x \<notin> set (map ?nm sel) \<longrightarrow> price s \<le> price x"
    by (simp_all add: getTech_inv_def)
  have xin: "?x \<in> set outfits" using p(1) by simp
  have before: "\<forall>s\<in>set sel. type_price_le s ?x"
  proof
    fix s assume s: "s \<in> set sel"
    show "type_price_le s ?x"
    proof (cases "type s = ty")
      case True
      with low s xin p(2,3) have "price s \<le> price ?x" by blast
      with True p(2) show ?thesis by (simp add: type_price_le_def)
    next
      case False
      with le s have "type s < ty" by force
      with p(2) show ?thesis by (simp add: type_price_le_def)
    qed
  qed
  have least': "\<forall>y\<in>set outfits. type y = ty \<and> ?nm y \<notin> set (map ?nm sel) \<longrightarrow> price ?x \<le> price y"
  proof (intro ballI impI)
    fix y assume y: "y \<in> set outfits" "type y = ty \<and> ?nm y \<notin> set (map ?nm sel)"
    from y(1) obtain j where j: "j < length outfits" "outfits ! j = y"
      by (auto simp: in_set_conv_nth)
    with y(2) have "cand outfits (map ?nm sel) ty j" by (simp add: cand_def)
    with least j show "price ?x \<le> price y" by auto
  qed
  have "set (sel @ [?x]) \<subseteq> set outfits" using sub xin by simp
  moreover have "distinct (map ?nm (sel @ [?x]))" using dis p(3) by simp
  moreover have "sorted_wrt type_price_le (sel @ [?x])"
    using srt before by (simp add: sorted_wrt_append)
  moreover have "\<forall>s\<in>set (sel @ [?x]). type s \<le> ty" using le p(2) by simp
  moreover have "\<forall>s\<in>set (sel @ [?x]). \<forall>y\<in>set outfits.
         type s = ty \<and> type y = ty \<and> ?nm y \<notin> set (map ?nm (sel @ [?x])) \<longrightarrow> price s \<le> price y"
    using low least' by auto
  ultimately show ?thesis unfolding getTech_inv_def by blast
qed

lemma getTech_sort_result:
  assumes "\<forall>x\<in>set outfits. name x \<noteq> None"
    and "getTech_inv outfits sel ty"
    and "names = map (\<lambda>x. the (name x)) sel"
  shows "\<exists>sel'. getTech_sort outfits names ty = Inr (map (\<lambda>x. the (name x)) sel') \<and>
           set sel' \<subseteq> set outfits \<and> sorted_wrt type_price_le sel' \<and>
           distinct (map (\<lambda>x. the (name x)) sel')"
  using assms
proof (induction outfits names ty arbitrary: sel rule: getTech_sort.induct)
  case (1 outfits names ty)
  let ?nm = "\<lambda>x. the (name x)"
  note named = "1.prems"(1) and inv = "1.prems"(2) and names = "1.prems"(3)
  show ?case
  proof (cases "ty < OUTFIT_TYPE_SENTINEL")
    case False
    then have "getTech_sort outfits names ty = Inr names"
      by (subst getTech_sort.simps) simp
    with inv names show ?thesis
      unfolding getTech_inv_def by blast
  next
    case True
    have "\<forall>j\<in>set [0..<length outfits]. j < length outfits" by simp
    moreover have "\<forall>q. (None :: nat option) = Some q \<longrightarrow> cand outfits names ty q" by simp
    ultimately obtain r where
      r: "getTech_cheapest outfits names ty [0..<length outfits] None = Inr r"
      and rnone: "r = None \<longleftrightarrow> (\<forall>j\<in>set [0..<length outfits]. \<not> cand outfits names ty j)"
      and rsome: "\<forall>p. r = Some p \<longrightarrow> cand outfits names ty p \<and>
              (\<forall>j\<in>set [0..<length outfits]. cand outfits names ty j \<longrightarrow>
                 price (outfits ! p) \<le> price (outfits ! j))"
      using getTech_cheapest_result [OF named, of "[0..<length outfits]" None names ty]
      by auto
    show ?thesis
    proof (cases r)
      case None
      with True r have unf: "getTech_sort outfits names ty = getTech_sort outfits names (ty + 1)"
        by (subst getTech_sort.simps) simp
      from r None have c: "getTech_cheapest outfits names ty [0..<length outfits] None = Inr None"
        by simp
      from "1.IH"(1) [OF True c refl named getTech_inv_next [OF inv] names] unf
      show ?thesis by simp
    next
      case (Some p)
      with rsome have c: "cand outfits names ty p"
        and least: "\<forall>j<length outfits. cand outfits names ty j \<longrightarrow>
                      price (outfits ! p) \<le> price (outfits ! j)"
        by auto
      from c have p: "p < length outfits" "?nm (outfits ! p) \<notin> set names"
        by (simp_all add: cand_def)
      from p(1) named obtain s where s: "name (outfits ! p) = Some s" by fastforce
      from inv have "distinct (map ?nm sel)" "set sel \<subseteq> set outfits"
        by (simp_all add: getTech_inv_def)
      then have "distinct names" "set names \<subseteq> ?nm ` set outfits"
        using names by auto
      moreover have "s \<in> ?nm ` set outfits" using p(1) s by (metis image_eqI nth_mem option.sel)
      moreover have "s \<notin> set names" using p(2) s by simp
      ultimately have room: "length names < length outfits" by (rule names_room)
      from r Some have c': "getTech_cheapest outfits names ty [0..<length outfits] None = Inr (Some p)"
        by simp
      from True c' s room
      have unf: "getTech_sort outfits names ty = getTech_sort outfits (names @ [s]) ty"
        by (subst getTech_sort.simps) simp
      have inv': "getTech_inv outfits (sel @ [outfits ! p]) ty"
        using inv c least unfolding names by (rule getTech_inv_add)
      have names': "names @ [s] = map ?nm (sel @ [outfits ! p])"
        using names s by simp
      from "1.IH"(2) [OF True c' refl s room named inv' names'] unf
      show ?thesis by simp
    qed
  qed
qed

text \<open>A list in the order of the type codes is grouped by type.\<close>

lemma sorted_grouped:
  assumes "sorted (ks :: int list)"
  shows "grouped ks"
  using assms
proof (induction ks)
  case Nil
  show ?case by simp
next
  case (Cons k ks)
  then have ge: "\<forall>x\<in>set ks. k \<le> x" and srt: "sorted ks" by simp_all
  have "k \<notin> set (dropWhile (\<lambda>x. x = k) ks)"
  proof (cases "dropWhile (\<lambda>x. x = k) ks")
    case Nil
    show ?thesis unfolding Nil by simp
  next
    case (Cons y ys)
    then have "y \<noteq> k" using hd_dropWhile [of "\<lambda>x. x = k" ks] by auto
    moreover have "y \<in> set ks" using Cons set_dropWhileD [of y "\<lambda>x. x = k" ks] by simp
    ultimately have "k < y" using ge by force
    moreover have "sorted (y # ys)" using srt sorted_dropWhile [of ks "\<lambda>x. x = k"] Cons by simp
    ultimately show ?thesis using Cons by auto
  qed
  with Cons.IH srt show ?case by simp
qed

lemma type_price_grouped:
  assumes "sorted_wrt type_price_le sel"
  shows "grouped (map type sel)"
proof -
  have "sorted_wrt (\<lambda>a b. type a \<le> type b) sel"
    by (rule sorted_wrt_mono_rel [OF _ assms]) (auto simp: type_price_le_def)
  then have "sorted (map type sel)" by (simp add: sorted_map)
  then show ?thesis by (rule sorted_grouped)
qed

text \<open>
  The listing is not grouped by broad type: the type codes are visited in their order,
  in which the turret bolt (broad type "Bolt Weapon") comes after the beam (broad type
  "Beam Weapon"). Of a bolt "A" at price 10, a beam "B" and a turret bolt "C" at price
  5, the listing is A, B, C: the two bolt weapons are apart, and the dearer one is
  first.
\<close>

theorem outfit_getTech_broad_counterexample:
  "outfit_getTech [10]
     [example_outfit ''A'' OUTFIT_TYPE_BOLT 1 10, example_outfit ''B'' OUTFIT_TYPE_BEAM 1 20,
      example_outfit ''C'' OUTFIT_TYPE_TURRET_BOLT 1 5] = Inr [''A'', ''B'', ''C''] \<and>
   map outfit_getTypeBroad
     [example_outfit ''A'' OUTFIT_TYPE_BOLT 1 10, example_outfit ''B'' OUTFIT_TYPE_BEAM 1 20,
      example_outfit ''C'' OUTFIT_TYPE_TURRET_BOLT 1 5] =
     [''Bolt Weapon'', ''Beam Weapon'', ''Bolt Weapon''] \<and>
   \<not> grouped (map outfit_getTypeBroad
     [example_outfit ''A'' OUTFIT_TYPE_BOLT 1 10, example_outfit ''B'' OUTFIT_TYPE_BEAM 1 20,
      example_outfit ''C'' OUTFIT_TYPE_TURRET_BOLT 1 5]) \<and>
   price (example_outfit ''C'' OUTFIT_TYPE_TURRET_BOLT 1 5)
     < price (example_outfit ''A'' OUTFIT_TYPE_BOLT 1 10)"
  by code_simp

text \<open>
  Claim C2, as amended. For a nonempty list of distinct technologies and a catalog in
  which every entry has a name, \<^verbatim>\<open>outfit_getTech\<close> returns the names of a sequence
  of catalog entries that is grouped by type, in the order of the type codes, each
  group in ascending order of price, and no name is returned twice.
\<close>

theorem outfit_getTech_order:
  assumes "techs \<noteq> []" and "distinct techs" and "\<forall>x\<in>set outfit_stack. name x \<noteq> None"
  shows "\<exists>sel. outfit_getTech techs outfit_stack = Inr (map (\<lambda>x. the (name x)) sel) \<and>
           set sel \<subseteq> set outfit_stack \<and> sorted_wrt type_price_le sel \<and>
           grouped (map type sel) \<and> distinct (map (\<lambda>x. the (name x)) sel)"
proof -
  from getTech_avail_result [OF assms(1,2), of outfit_stack] obtain outfits where
    av: "getTech_avail techs outfit_stack = Inr outfits" and sub: "set outfits \<subseteq> set outfit_stack"
    by blast
  from sub assms(3) have named: "\<forall>x\<in>set outfits. name x \<noteq> None" by blast
  have inv: "getTech_inv outfits [] (OUTFIT_TYPE_NULL + 1)" by (simp add: getTech_inv_def)
  from getTech_sort_result [OF named inv, of "[]"] obtain sel where
    sel: "getTech_sort outfits [] (OUTFIT_TYPE_NULL + 1) = Inr (map (\<lambda>x. the (name x)) sel)"
    "set sel \<subseteq> set outfits" "sorted_wrt type_price_le sel"
    "distinct (map (\<lambda>x. the (name x)) sel)"
    by auto
  from sel(3) have "grouped (map type sel)" by (rule type_price_grouped)
  with av sub sel show ?thesis
    unfolding outfit_getTech_def by (intro exI [of _ sel]) auto
qed

theorem outfit_getTech_order_witness:
  "outfit_getTech [2, 7]
     [example_outfit ''X'' OUTFIT_TYPE_BOLT 1 30, example_outfit ''Far'' OUTFIT_TYPE_BOLT 9 1,
      example_outfit ''A'' OUTFIT_TYPE_BOLT 2 10, example_outfit ''B'' OUTFIT_TYPE_BEAM 7 20,
      example_outfit ''C'' OUTFIT_TYPE_TURRET_BOLT 1 5, example_outfit ''A'' OUTFIT_TYPE_BOLT 1 50]
     = Inr [''A'', ''X'', ''B'', ''C''] \<and>
   (\<exists>sel. map (\<lambda>x. the (name x)) sel = [''A'', ''X'', ''B'', ''C''] \<and>
      sorted_wrt type_price_le sel \<and> grouped (map type sel))"
proof -
  let ?st = "[example_outfit ''X'' OUTFIT_TYPE_BOLT 1 30, example_outfit ''Far'' OUTFIT_TYPE_BOLT 9 1,
      example_outfit ''A'' OUTFIT_TYPE_BOLT 2 10, example_outfit ''B'' OUTFIT_TYPE_BEAM 7 20,
      example_outfit ''C'' OUTFIT_TYPE_TURRET_BOLT 1 5, example_outfit ''A'' OUTFIT_TYPE_BOLT 1 50]"
  have run: "outfit_getTech [2, 7] ?st = Inr [''A'', ''X'', ''B'', ''C'']"
    by code_simp
  have "[2, 7 :: int] \<noteq> []" and "distinct [2, 7 :: int]"
    and "\<forall>x\<in>set ?st. name x \<noteq> None"
    by (simp_all add: example_outfit_def)
  from outfit_getTech_order [OF this] obtain sel where
    sel: "outfit_getTech [2, 7] ?st = Inr (map (\<lambda>x. the (name x)) sel)"
      "sorted_wrt type_price_le sel" "grouped (map type sel)"
    by blast
  from trans [OF sel(1) [symmetric] run]
  have eq: "map (\<lambda>x. the (name x)) sel = [''A'', ''X'', ''B'', ''C'']"
    by (simp only: sum.inject)
  have "\<exists>sel. map (\<lambda>x. the (name x)) sel = [''A'', ''X'', ''B'', ''C''] \<and>
      sorted_wrt type_price_le sel \<and> grouped (map type sel)"
    by (rule exI [of _ sel]) (intro conjI eq sel(2) sel(3))
  with run show ?thesis by (rule conjI)
qed

end
